theory Spec2Isabelle
  imports Complex_Main "HOL-Library.Product_Lexorder"
begin

section \<open>Python library values used by the program\<close>

text \<open>
  The program is Python. Its own functions are translated below one by one; the library
  objects they handle (exceptions, \<open>datetime\<close>, \<open>timedelta\<close>, \<open>calendar\<close>, JSON values,
  regular expressions) are modelled in this section, as far as the program uses them.
\<close>

subsection \<open>Exceptions\<close>

datatype py_error =
    TypeError
  | AttributeError
  | ValueError string
  | OverflowError
  | IllegalMonthError nat
  | APIError string

subsection \<open>Decimal text of a number\<close>

definition digit_char :: "nat \<Rightarrow> char" where
  "digit_char n = ''0123456789'' ! (n mod 10)"

function show_nat :: "nat \<Rightarrow> string" where
  "show_nat n = (if n < 10 then [digit_char n] else show_nat (n div 10) @ [digit_char n])"
  by pat_completeness auto
termination
  by (relation "measure id") auto

declare show_nat.simps [simp del]

definition show_int :: "int \<Rightarrow> string" where
  "show_int i = (if i < 0 then CHR ''-'' # show_nat (nat (- i)) else show_nat (nat i))"

text \<open>\<open>'%02d'\<close>: at least two digits.\<close>

definition pad2 :: "nat \<Rightarrow> string" where
  "pad2 n = (if n < 10 then CHR ''0'' # show_nat n else show_nat n)"

text \<open>The text of an exception, \<open>str(e)\<close>.\<close>

fun exc_str :: "py_error \<Rightarrow> string" where
  "exc_str TypeError = ''unsupported operand''"
| "exc_str AttributeError = ''object has no attribute get''"
| "exc_str (ValueError m) = m"
| "exc_str OverflowError = ''date value out of range''"
| "exc_str (IllegalMonthError m) = ''bad month number '' @ show_nat m @ ''; must be 1-12''"
| "exc_str (APIError m) = m"

subsection \<open>\<open>calendar\<close> and \<open>datetime\<close>\<close>

text \<open>
  A naive \<open>datetime.datetime\<close>: the seven fields Python stores. All of them are
  non-negative in every datetime object, hence \<open>nat\<close>.
\<close>

record datetime =
  year :: nat
  month :: nat
  day :: nat
  hour :: nat
  minute :: nat
  second :: nat
  microsecond :: nat

definition isleap :: "nat \<Rightarrow> bool" where
  "isleap y = (y mod 4 = 0 \<and> (y mod 100 \<noteq> 0 \<or> y mod 400 = 0))"

definition mdays :: "nat list" where
  "mdays = [0, 31, 28, 31, 30, 31, 30, 31, 31, 30, 31, 30, 31]"

definition days_in_month :: "nat \<Rightarrow> nat \<Rightarrow> nat" where
  "days_in_month y m = (if m = 2 \<and> isleap y then 29 else mdays ! m)"

text \<open>\<open>calendar.monthrange(year, month)[1]\<close>; an illegal month raises.\<close>

definition monthrange_days :: "nat \<Rightarrow> nat \<Rightarrow> py_error + nat" where
  "monthrange_days y m =
     (if 1 \<le> m \<and> m \<le> 12 then Inr (days_in_month y m) else Inl (IllegalMonthError m))"

text \<open>
  The constructor \<open>datetime.datetime(y, m, d, hh, mm, ss)\<close>: it checks the ranges of its
  arguments and raises \<open>ValueError\<close> outside them.
\<close>

definition new_datetime ::
  "nat \<Rightarrow> nat \<Rightarrow> nat \<Rightarrow> nat \<Rightarrow> nat \<Rightarrow> nat \<Rightarrow> py_error + datetime" where
  "new_datetime y m d hh mm ss =
     (if \<not> (1 \<le> y \<and> y \<le> 9999) then Inl (ValueError (''year '' @ show_nat y @ '' is out of range''))
      else if \<not> (1 \<le> m \<and> m \<le> 12) then Inl (ValueError ''month must be in 1..12'')
      else if \<not> (1 \<le> d \<and> d \<le> days_in_month y m) then Inl (ValueError ''day is out of range for month'')
      else if \<not> hh < 24 then Inl (ValueError ''hour must be in 0..23'')
      else if \<not> mm < 60 then Inl (ValueError ''minute must be in 0..59'')
      else if \<not> ss < 60 then Inl (ValueError ''second must be in 0..59'')
      else Inr \<lparr>year = y, month = m, day = d, hour = hh, minute = mm, second = ss,
                microsecond = 0\<rparr>)"

text \<open>
  Comparison of two naive datetimes is the lexicographic comparison of their fields.
\<close>

definition dt_tuple :: "datetime \<Rightarrow> nat \<times> nat \<times> nat \<times> nat \<times> nat \<times> nat \<times> nat" where
  "dt_tuple t = (year t, month t, day t, hour t, minute t, second t, microsecond t)"

definition dt_le :: "datetime \<Rightarrow> datetime \<Rightarrow> bool" where
  "dt_le a b = (dt_tuple a \<le> dt_tuple b)"

text \<open>\<open>t.date()\<close>.\<close>

definition date_of :: "datetime \<Rightarrow> nat \<times> nat \<times> nat" where
  "date_of t = (year t, month t, day t)"

text \<open>
  The calendar day before a date; there is none before 0001-01-01 (\<open>datetime.min\<close>).
\<close>

definition prev_day :: "nat \<times> nat \<times> nat \<Rightarrow> (nat \<times> nat \<times> nat) option" where
  "prev_day ymd =
     (case ymd of (y, m, d) \<Rightarrow>
        if 1 < d then Some (y, m, d - 1)
        else if 1 < m then Some (y, m - 1, days_in_month y (m - 1))
        else if 1 < y then Some (y - 1, 12, 31)
        else None)"

text \<open>The date \<open>n\<close> days before a date.\<close>

fun days_back :: "nat \<Rightarrow> nat \<times> nat \<times> nat \<Rightarrow> (nat \<times> nat \<times> nat) option" where
  "days_back 0 ymd = Some ymd"
| "days_back (Suc n) ymd = (case prev_day ymd of None \<Rightarrow> None | Some p \<Rightarrow> days_back n p)"

text \<open>
  \<open>t - datetime.timedelta(days=dd, seconds=ss)\<close> for a non-negative timedelta: the time
  of day is reduced by \<open>ss\<close> seconds, borrowing whole days, and the date moves back by the
  days subtracted and borrowed. Python raises \<open>OverflowError\<close> when the result is before
  \<open>datetime.min\<close>. The microsecond is kept.
\<close>

definition second_of_day :: "datetime \<Rightarrow> nat" where
  "second_of_day t = hour t * 3600 + minute t * 60 + second t"

definition dt_minus :: "datetime \<Rightarrow> nat \<Rightarrow> nat \<Rightarrow> py_error + datetime" where
  "dt_minus t dd ss =
     (let s = int (second_of_day t) - int ss;
          borrow = nat (- (s div 86400));
          r = nat (s mod 86400)
      in case days_back (dd + borrow) (date_of t) of
           None \<Rightarrow> Inl OverflowError
         | Some (y, m, d) \<Rightarrow>
             Inr \<lparr>year = y, month = m, day = d, hour = r div 3600,
                  minute = (r mod 3600) div 60, second = r mod 60,
                  microsecond = microsecond t\<rparr>)"

text \<open>
  \<open>a - b\<close> of two datetimes is a \<open>timedelta\<close>; it is kept as its exact length in
  microseconds. Python computes it from the proleptic Gregorian ordinals of the dates.
\<close>

definition days_before_year :: "nat \<Rightarrow> int" where
  "days_before_year y =
     (let p = int y - 1 in p * 365 + p div 4 - p div 100 + p div 400)"

definition days_before_month :: "nat \<Rightarrow> nat \<Rightarrow> int" where
  "days_before_month y m = int (sum_list (map (days_in_month y) [1..<m]))"

definition toordinal :: "datetime \<Rightarrow> int" where
  "toordinal t = days_before_year (year t) + days_before_month (year t) (month t) + int (day t)"

definition dt_micros :: "datetime \<Rightarrow> int" where
  "dt_micros t =
     (toordinal t * 86400 + int (second_of_day t)) * 1000000 + int (microsecond t)"

type_synonym timedelta = int

definition dt_diff :: "datetime \<Rightarrow> datetime \<Rightarrow> timedelta" where
  "dt_diff a b = dt_micros a - dt_micros b"

text \<open>\<open>td.days\<close> (the normalised day count, rounded down) and \<open>td.total_seconds()\<close>
  compared with a whole number of seconds.\<close>

definition td_days :: "timedelta \<Rightarrow> int" where
  "td_days d = d div 86400000000"

definition total_seconds_gt :: "timedelta \<Rightarrow> int \<Rightarrow> bool" where
  "total_seconds_gt d n = (d > n * 1000000)"

definition total_seconds_le :: "timedelta \<Rightarrow> int \<Rightarrow> bool" where
  "total_seconds_le d n = (d \<le> n * 1000000)"

text \<open>\<open>strftime\<close> with the formats the program uses: \<open>'%B %Y'\<close> and \<open>'%B %d, %Y'\<close>.\<close>

definition month_name :: "nat \<Rightarrow> string" where
  "month_name m =
     [''January'', ''February'', ''March'', ''April'', ''May'', ''June'', ''July'',
      ''August'', ''September'', ''October'', ''November'', ''December''] ! (m - 1)"

definition strftime_B_Y :: "datetime \<Rightarrow> string" where
  "strftime_B_Y t = month_name (month t) @ '' '' @ show_nat (year t)"

definition strftime_B_d_Y :: "datetime \<Rightarrow> string" where
  "strftime_B_d_Y t =
     month_name (month t) @ '' '' @ pad2 (day t) @ '', '' @ show_nat (year t)"

subsection \<open>Regular expressions\<close>

text \<open>
  The patterns of the program use literals, \<open>\b\<close>, \<open>\s+\<close>, \<open>[A-Za-z]+\<close>,
  \<open>\d{m,n}\<close>, alternation, \<open>?\<close> and capturing groups, and are matched with
  \<open>re.IGNORECASE\<close>. A character of a query is its code point, and the type \<open>char\<close> holds
  the code points below 256: the classes below are the ones of \<open>re\<close> for a \<open>str\<close> pattern on
  these code points (\<open>\s\<close> is Unicode white space, \<open>\w\<close> is \<open>str.isalnum\<close> or an
  underscore, \<open>\d\<close> is a decimal digit); no code point below 256 other than an ASCII letter
  equals an ASCII letter when case is ignored. The matcher returns every way a pattern can
  match from a position, in the order the backtracking engine of \<open>re\<close> tries them (greedy
  first), so the head of the list is the match Python reports.
\<close>

datatype char_class = Space | Digit | Alpha

datatype regex =
    Eps
  | Lit string
  | WordB
  | Rep char_class nat "nat option"
  | Seq regex regex
  | Alt regex regex
  | Opt regex
  | Grp regex

definition is_space :: "char \<Rightarrow> bool" where
  "is_space c =
     (let n = (of_char c :: nat)
      in n = 32 \<or> (9 \<le> n \<and> n \<le> 13) \<or> (28 \<le> n \<and> n \<le> 31) \<or> n = 133 \<or> n = 160)"

definition is_digit :: "char \<Rightarrow> bool" where
  "is_digit c = (let n = (of_char c :: nat) in 48 \<le> n \<and> n \<le> 57)"

definition is_alpha :: "char \<Rightarrow> bool" where
  "is_alpha c = (let n = (of_char c :: nat) in (65 \<le> n \<and> n \<le> 90) \<or> (97 \<le> n \<and> n \<le> 122))"

text \<open>The letters and numbers above 127: the ordinal indicators, the superscripts 1 to 3,
  the micro sign, the three fractions, and the letters from 192 on except the two
  arithmetic signs 215 and 247.\<close>

definition is_latin1_alnum :: "char \<Rightarrow> bool" where
  "is_latin1_alnum c =
     (let n = (of_char c :: nat)
      in n = 170 \<or> n = 178 \<or> n = 179 \<or> n = 181 \<or> n = 185 \<or> n = 186 \<or>
         (188 \<le> n \<and> n \<le> 190) \<or> (192 \<le> n \<and> n \<le> 214) \<or>
         (216 \<le> n \<and> n \<le> 246) \<or> (248 \<le> n \<and> n \<le> 255))"

definition is_word :: "char \<Rightarrow> bool" where
  "is_word c = (is_alpha c \<or> is_digit c \<or> c = CHR ''_'' \<or> is_latin1_alnum c)"

definition lower :: "char \<Rightarrow> char" where
  "lower c = (let n = (of_char c :: nat) in if 65 \<le> n \<and> n \<le> 90 then char_of (n + 32) else c)"

fun in_class :: "char_class \<Rightarrow> char \<Rightarrow> bool" where
  "in_class Space c = is_space c"
| "in_class Digit c = is_digit c"
| "in_class Alpha c = is_alpha c"

text \<open>\<open>\b\<close> holds at \<open>i\<close> when exactly one of the characters around \<open>i\<close> is a word
  character; outside the string there is none.\<close>

definition at_boundary :: "string \<Rightarrow> nat \<Rightarrow> bool" where
  "at_boundary s i =
     ((0 < i \<and> i \<le> length s \<and> is_word (s ! (i - 1))) \<noteq> (i < length s \<and> is_word (s ! i)))"

type_synonym mstate = "nat \<times> (nat \<times> nat) list"

fun rmatch :: "string \<Rightarrow> regex \<Rightarrow> mstate \<Rightarrow> mstate list" where
  "rmatch s Eps st = [st]"
| "rmatch s (Lit lit) (i, g) =
     (if map lower (take (length lit) (drop i s)) = map lower lit
      then [(i + length lit, g)] else [])"
| "rmatch s WordB (i, g) = (if at_boundary s i then [(i, g)] else [])"
| "rmatch s (Rep k lo hi) (i, g) =
     (let n = length (takeWhile (in_class k) (drop i s));
          top = (case hi of None \<Rightarrow> n | Some h \<Rightarrow> min h n)
      in map (\<lambda>j. (i + j, g)) (rev [lo..<Suc top]))"
| "rmatch s (Seq a b) st = concat (map (rmatch s b) (rmatch s a st))"
| "rmatch s (Alt a b) st = rmatch s a st @ rmatch s b st"
| "rmatch s (Opt a) st = rmatch s a st @ [st]"
| "rmatch s (Grp a) (i, g) = map (\<lambda>(j, g'). (j, g' @ [(i, j)])) (rmatch s a (i, g))"

definition group_text :: "string \<Rightarrow> nat \<times> nat \<Rightarrow> string" where
  "group_text s ab = (case ab of (a, b) \<Rightarrow> take (b - a) (drop a s))"

text \<open>\<open>re.search\<close>: the first start position with a match, and there the first match.
  The result is the list of the texts of the groups (\<open>match.group(1)\<close>, ...), or \<open>None\<close>.\<close>

fun search_from :: "string \<Rightarrow> regex \<Rightarrow> nat list \<Rightarrow> string list option" where
  "search_from s r [] = None"
| "search_from s r (i # rest) =
     (case rmatch s r (i, []) of
        [] \<Rightarrow> search_from s r rest
      | (j, g) # _ \<Rightarrow> Some (map (group_text s) g))"

definition re_search :: "regex \<Rightarrow> string \<Rightarrow> string list option" where
  "re_search r s = search_from s r [0..<Suc (length s)]"

definition cat :: "regex list \<Rightarrow> regex" where
  "cat rs = foldr Seq rs Eps"

subsection \<open>JSON values\<close>

text \<open>
  What \<open>response.json()\<close> returns: \<open>None\<close>, \<open>bool\<close>, \<open>int\<close>, \<open>float\<close>, \<open>str\<close>,
  \<open>list\<close> and \<open>dict\<close>. A dict is the list of its items in iteration order; its keys are
  distinct, and a lookup takes the item with the key.
\<close>

datatype json =
    JNull
  | JBool bool
  | JInt int
  | JFloat rat
  | JStr string
  | JArr "json list"
  | JObj "(string \<times> json) list"

text \<open>Truthiness, as \<open>if x:\<close> and \<open>not x\<close> test it.\<close>

fun truthy :: "json \<Rightarrow> bool" where
  "truthy JNull = False"
| "truthy (JBool b) = b"
| "truthy (JInt i) = (i \<noteq> 0)"
| "truthy (JFloat r) = (r \<noteq> 0)"
| "truthy (JStr s) = (s \<noteq> [])"
| "truthy (JArr xs) = (xs \<noteq> [])"
| "truthy (JObj kvs) = (kvs \<noteq> [])"

fun is_dict :: "json \<Rightarrow> bool" where
  "is_dict (JObj kvs) = True"
| "is_dict _ = False"

fun is_list :: "json \<Rightarrow> bool" where
  "is_list (JArr xs) = True"
| "is_list _ = False"

text \<open>\<open>d.get(k, default)\<close> on a dict.\<close>

definition dict_get :: "(string \<times> json) list \<Rightarrow> string \<Rightarrow> json \<Rightarrow> json" where
  "dict_get kvs k dflt = (case map_of kvs k of None \<Rightarrow> dflt | Some v \<Rightarrow> v)"

text \<open>\<open>x.get(k, default)\<close> on any value: only a dict has the method.\<close>

fun py_get :: "json \<Rightarrow> string \<Rightarrow> json \<Rightarrow> py_error + json" where
  "py_get (JObj kvs) k dflt = Inr (dict_get kvs k dflt)"
| "py_get _ k dflt = Inl AttributeError"

text \<open>\<open>for x in v\<close>: a list gives its elements, a dict its keys, a string its
  characters; nothing else can be iterated.\<close>

fun py_iter :: "json \<Rightarrow> py_error + json list" where
  "py_iter (JArr xs) = Inr xs"
| "py_iter (JObj kvs) = Inr (map (\<lambda>kv. JStr (fst kv)) kvs)"
| "py_iter (JStr s) = Inr (map (\<lambda>c. JStr [c]) s)"
| "py_iter _ = Inl TypeError"

text \<open>\<open>len(v)\<close> only decides whether a \<open>TypeError\<close> is raised here.\<close>

fun has_len :: "json \<Rightarrow> bool" where
  "has_len (JArr xs) = True"
| "has_len (JObj kvs) = True"
| "has_len (JStr s) = True"
| "has_len _ = False"

text \<open>\<open>k in v\<close> for a string \<open>k\<close>: a key of a dict, an element of a list, a substring of
  a string; \<open>TypeError\<close> otherwise.\<close>

fun is_substring :: "string \<Rightarrow> string \<Rightarrow> bool" where
  "is_substring k [] = (k = [])"
| "is_substring k (c # s) = (take (length k) (c # s) = k \<or> is_substring k s)"

fun py_in :: "string \<Rightarrow> json \<Rightarrow> py_error + bool" where
  "py_in k (JObj kvs) = Inr (k \<in> set (map fst kvs))"
| "py_in k (JArr xs) = Inr (JStr k \<in> set xs)"
| "py_in k (JStr s) = Inr (is_substring k s)"
| "py_in k _ = Inl TypeError"

text \<open>\<open>v[k]\<close> for a string \<open>k\<close> that is known to be \<open>in v\<close>: only a dict can be indexed
  by a string.\<close>

fun py_index :: "json \<Rightarrow> string \<Rightarrow> py_error + json" where
  "py_index (JObj kvs) k = Inr (dict_get kvs k JNull)"
| "py_index _ k = Inl TypeError"

text \<open>Reading along keys: the value under a key of a dict, \<open>None\<close> when the value is not
  a dict or has no such key; and the elements a \<open>for\<close> loop over a value visits.\<close>

definition json_field :: "json \<Rightarrow> string \<Rightarrow> json option" where
  "json_field v k = (case v of JObj kvs \<Rightarrow> map_of kvs k | _ \<Rightarrow> None)"

definition json_items :: "json \<Rightarrow> json list" where
  "json_items v = (case py_iter v of Inl x \<Rightarrow> [] | Inr xs \<Rightarrow> xs)"

subsection \<open>The outside world\<close>

text \<open>An HTTP request of \<open>requests.get\<close> either raises a \<open>RequestException\<close> or
  returns a response with a status code and a decoded JSON body.\<close>

datatype http_outcome = RequestException | Response nat json

text \<open>
  The value of the key \<open>createdTimestamp\<close> of a scenario dict: a JSON value taken from
  the run listing, a \<open>datetime\<close> object, or the text \<open>d.isoformat()\<close> of a datetime
  (kept as the datetime it denotes).
\<close>

datatype ts_value = TsJson json | TsDatetime datetime | TsIso datetime

text \<open>A value of a \<open>TIMESTAMP\<close> column, or the failure of the database to read one.\<close>

datatype pg_time = PgInvalid | PgNull | PgTime datetime

text \<open>
  Everything the program reads from outside:
  \<^item> the successive readings of \<open>datetime.utcnow()\<close> and \<open>datetime.now()\<close>;
  \<^item> \<open>dateutil.parser.parse\<close> on a text (\<open>None\<close>: it raises);
  \<^item> the answers of the two endpoints of the reporting API;
  \<^item> \<open>str(v)\<close> of a float, list or dict;
  \<^item> how the database reads a JSON value written to a timestamp column;
  \<^item> the order in which Python iterates the set built from a list of strings.
\<close>

record env =
  utc_clock :: "nat \<Rightarrow> datetime"
  local_clock :: "nat \<Rightarrow> datetime"
  dateutil_parse :: "string \<Rightarrow> datetime option"
  http_get_runs :: http_outcome
  http_get_report :: "string \<Rightarrow> http_outcome"
  py_repr :: "json \<Rightarrow> string"
  pg_parse :: "json \<Rightarrow> datetime option"
  set_order :: "string list \<Rightarrow> string list"

text \<open>\<open>str(v)\<close>.\<close>

fun py_str :: "env \<Rightarrow> json \<Rightarrow> string" where
  "py_str e (JStr s) = s"
| "py_str e (JInt i) = show_int i"
| "py_str e (JBool b) = (if b then ''True'' else ''False'')"
| "py_str e JNull = ''None''"
| "py_str e v = py_repr e v"

fun to_pg :: "env \<Rightarrow> ts_value \<Rightarrow> pg_time" where
  "to_pg e (TsIso d) = PgTime d"
| "to_pg e (TsDatetime d) = PgTime d"
| "to_pg e (TsJson JNull) = PgNull"
| "to_pg e (TsJson v) = (case pg_parse e v of None \<Rightarrow> PgInvalid | Some d \<Rightarrow> PgTime d)"

section \<open>The record store\<close>

text \<open>
  A scenario dict as \<open>extract_scenario_details\<close> builds it, and a row of the table
  \<open>scenarios\<close>: the same keys and \<open>last_updated_timestamp\<close>. The table has the primary
  key \<open>(runId, scenarioId)\<close>.
\<close>

record scenario =
  runId :: string
  scenarioId :: string
  scenarioName :: json
  flowId :: string
  flowName :: json
  processId :: string
  processName :: json
  createdTimestamp :: ts_value
  rowRunStatus :: string

record store_row = scenario +
  last_updated_timestamp :: datetime

text \<open>The query that \<open>_build_query\<close> composes.\<close>

record query_plan =
  table_name :: string
  gte_created :: "datetime option"
  lte_created :: "datetime option"
  eq_status :: "string option"
  order_column :: "string option"
  order_desc :: bool
  row_limit :: "nat option"

datatype store_op =
    SelectLastUpdated
  | DeleteRun string
  | InsertRows "store_row list"
  | SelectScenarios query_plan

text \<open>The state: the rows of the table, the number of clock readings made so far, and
  the requests sent to the store, oldest first.\<close>

record world =
  store :: "store_row list"
  ticks :: nat
  trace :: "store_op list"

text \<open>The rows of a run, and the kinds of request in the trace.\<close>

definition rows_of_run :: "string \<Rightarrow> world \<Rightarrow> store_row list" where
  "rows_of_run run_id w = filter (\<lambda>r. runId r = run_id) (store w)"

fun is_write :: "store_op \<Rightarrow> bool" where
  "is_write (DeleteRun run_id) = True"
| "is_write (InsertRows batch) = True"
| "is_write _ = False"

fun is_query :: "store_op \<Rightarrow> bool" where
  "is_query (SelectScenarios q) = True"
| "is_query _ = False"

definition utcnow :: "env \<Rightarrow> world \<Rightarrow> datetime \<times> world" where
  "utcnow e w = (utc_clock e (ticks w), w\<lparr>ticks := Suc (ticks w)\<rparr>)"

definition now_local :: "env \<Rightarrow> world \<Rightarrow> datetime \<times> world" where
  "now_local e w = (local_clock e (ticks w), w\<lparr>ticks := Suc (ticks w)\<rparr>)"

definition row_key :: "store_row \<Rightarrow> string \<times> string" where
  "row_key r = (runId r, scenarioId r)"

text \<open>\<open>.delete().eq('runId', run_id).execute()\<close>\<close>

definition store_delete :: "string \<Rightarrow> world \<Rightarrow> world" where
  "store_delete rid w =
     w\<lparr>store := filter (\<lambda>r. runId r \<noteq> rid) (store w), trace := trace w @ [DeleteRun rid]\<rparr>"

text \<open>\<open>.insert(batch).execute()\<close>: one statement, which inserts every row or, when a
  key is already taken or a timestamp cannot be read, raises and inserts nothing.\<close>

definition store_insert :: "env \<Rightarrow> store_row list \<Rightarrow> world \<Rightarrow> py_error option \<times> world" where
  "store_insert e batch w =
     (let w' = w\<lparr>trace := trace w @ [InsertRows batch]\<rparr> in
      if \<exists>r \<in> set batch. to_pg e (createdTimestamp r) = PgInvalid
        then (Some (APIError ''invalid input syntax for type timestamp''), w')
      else if \<not> distinct (map row_key batch) \<or>
              (\<exists>r \<in> set batch. row_key r \<in> set (map row_key (store w)))
        then (Some (APIError ''duplicate key value violates unique constraint''), w')
      else (None, w'\<lparr>store := store w @ batch\<rparr>))"

text \<open>
  \<open>.select('last_updated_timestamp').order('last_updated_timestamp', desc=True).limit(1)\<close>:
  the greatest value of the column, in a list of at most one element.
\<close>

fun greatest :: "datetime list \<Rightarrow> datetime option" where
  "greatest [] = None"
| "greatest (t # ts) =
     (case greatest ts of None \<Rightarrow> Some t | Some u \<Rightarrow> Some (if dt_le u t then t else u))"

definition store_select_last_updated :: "world \<Rightarrow> datetime list \<times> world" where
  "store_select_last_updated w =
     ((case greatest (map last_updated_timestamp (store w)) of None \<Rightarrow> [] | Some t \<Rightarrow> [t]),
      w\<lparr>trace := trace w @ [SelectLastUpdated]\<rparr>)"

text \<open>
  Running a query plan: the range and status filters, the ordering (rows without a
  timestamp come first in a descending order), the limit.
\<close>

definition created_at :: "env \<Rightarrow> store_row \<Rightarrow> pg_time" where
  "created_at e r = to_pg e (createdTimestamp r)"

definition created_key :: "env \<Rightarrow> store_row \<Rightarrow> nat \<times> nat \<times> nat \<times> nat \<times> nat \<times> nat \<times> nat" where
  "created_key e r = (case created_at e r of PgTime t \<Rightarrow> dt_tuple t | _ \<Rightarrow> (0, 0, 0, 0, 0, 0, 0))"

definition row_selected :: "env \<Rightarrow> query_plan \<Rightarrow> store_row \<Rightarrow> bool" where
  "row_selected e q r =
     ((case gte_created q of None \<Rightarrow> True
        | Some a \<Rightarrow> (case created_at e r of PgTime t \<Rightarrow> dt_le a t | _ \<Rightarrow> False)) \<and>
      (case lte_created q of None \<Rightarrow> True
        | Some b \<Rightarrow> (case created_at e r of PgTime t \<Rightarrow> dt_le t b | _ \<Rightarrow> False)) \<and>
      (case eq_status q of None \<Rightarrow> True | Some st \<Rightarrow> rowRunStatus r = st))"

definition order_rows :: "env \<Rightarrow> query_plan \<Rightarrow> store_row list \<Rightarrow> store_row list" where
  "order_rows e q rows =
     (if order_column q = Some ''createdTimestamp'' then
        (let nulls = filter (\<lambda>r. created_at e r = PgNull) rows;
             timed = filter (\<lambda>r. created_at e r \<noteq> PgNull) rows;
             asc = sort_key (created_key e) timed
         in if order_desc q then nulls @ rev asc else asc @ nulls)
      else rows)"

definition store_execute :: "env \<Rightarrow> query_plan \<Rightarrow> world \<Rightarrow> store_row list \<times> world" where
  "store_execute e q w =
     (let rows = order_rows e q (filter (row_selected e q) (store w))
      in ((case row_limit q of None \<Rightarrow> rows | Some n \<Rightarrow> take n rows),
          w\<lparr>trace := trace w @ [SelectScenarios q]\<rparr>))"

section \<open>\<open>agents/filter_agent.py\<close>\<close>

subsection \<open>The phrase patterns\<close>

definition spaces :: regex where
  "spaces = Rep Space 1 None"

definition pat_today :: regex where
  "pat_today = cat [WordB, Lit ''today'', WordB]"

definition pat_yesterday :: regex where
  "pat_yesterday = cat [WordB, Lit ''yesterday'', WordB]"

definition pat_last_week :: regex where
  "pat_last_week = cat [WordB, Lit ''last'', spaces, Lit ''week'', WordB]"

definition pat_last_month :: regex where
  "pat_last_month = cat [WordB, Lit ''last'', spaces, Lit ''month'', WordB]"

definition pat_last_24_hours :: regex where
  "pat_last_24_hours = cat [WordB, Lit ''last'', spaces, Lit ''24'', spaces, Lit ''hours'', WordB]"

text \<open>\<open>[A-Za-z]+\s+\d{1,2}(?:st|nd|rd|th)?(?:,?\s+\d{4})?\<close>\<close>

definition pat_date :: regex where
  "pat_date =
     cat [Rep Alpha 1 None, spaces, Rep Digit 1 (Some 2),
          Opt (Alt (Lit ''st'') (Alt (Lit ''nd'') (Alt (Lit ''rd'') (Lit ''th'')))),
          Opt (cat [Opt (Lit '',''), spaces, Rep Digit 4 (Some 4)])]"

definition pat_explicit :: regex where
  "pat_explicit =
     cat [Lit ''from'', spaces, Grp pat_date, spaces, Lit ''to'', spaces, Grp pat_date]"

definition pat_passed :: regex where
  "pat_passed = cat [WordB, Lit ''passed'', WordB]"

definition pat_failed :: regex where
  "pat_failed = cat [WordB, Lit ''failed'', WordB]"

datatype time_rule = Today | Yesterday | LastWeek | LastMonth | Last24Hours | ExplicitRange

text \<open>\<open>self.time_patterns\<close> and \<open>self.status_patterns\<close>: dicts, iterated in the order
  in which their items are written.\<close>

definition time_patterns :: "(regex \<times> time_rule) list" where
  "time_patterns =
     [(pat_today, Today),
      (pat_yesterday, Yesterday),
      (pat_last_week, LastWeek),
      (pat_last_month, LastMonth),
      (pat_last_24_hours, Last24Hours),
      (pat_explicit, ExplicitRange)]"

definition status_patterns :: "(regex \<times> string) list" where
  "status_patterns = [(pat_passed, ''Passed''), (pat_failed, ''Failed'')]"

subsection \<open>The range of each rule\<close>

type_synonym time_range = "datetime option \<times> datetime option"

definition get_today_range :: "env \<Rightarrow> world \<Rightarrow> (py_error + time_range) \<times> world" where
  "get_today_range e w =
     (let (now, w') = utcnow e w in
      (case new_datetime (year now) (month now) (day now) 0 0 0 of
         Inl x \<Rightarrow> Inl x
       | Inr start_time \<Rightarrow> Inr (Some start_time, Some now),
       w'))"

definition get_yesterday_range :: "env \<Rightarrow> world \<Rightarrow> (py_error + time_range) \<times> world" where
  "get_yesterday_range e w =
     (let (now, w') = utcnow e w in
      (case dt_minus now 1 0 of
         Inl x \<Rightarrow> Inl x
       | Inr yesterday \<Rightarrow>
          (case new_datetime (year yesterday) (month yesterday) (day yesterday) 0 0 0 of
             Inl x \<Rightarrow> Inl x
           | Inr start_time \<Rightarrow>
              (case new_datetime (year yesterday) (month yesterday) (day yesterday) 23 59 59 of
                 Inl x \<Rightarrow> Inl x
               | Inr end_time \<Rightarrow> Inr (Some start_time, Some end_time))),
       w'))"

definition get_last_week_range :: "env \<Rightarrow> world \<Rightarrow> (py_error + time_range) \<times> world" where
  "get_last_week_range e w =
     (let (now, w') = utcnow e w in
      (case new_datetime (year now) (month now) (day now) 0 0 0 of
         Inl x \<Rightarrow> Inl x
       | Inr today_start \<Rightarrow>
          (case dt_minus today_start 7 0 of
             Inl x \<Rightarrow> Inl x
           | Inr start_time \<Rightarrow>
              (case dt_minus today_start 0 1 of
                 Inl x \<Rightarrow> Inl x
               | Inr end_time \<Rightarrow> Inr (Some start_time, Some end_time))),
       w'))"

definition get_last_month_range :: "env \<Rightarrow> world \<Rightarrow> (py_error + time_range) \<times> world" where
  "get_last_month_range e w =
     (let (now, w') = utcnow e w;
          prev_month = (if month now = 1 then 12 else month now - 1);
          prev_year = (if month now = 1 then year now - 1 else year now)
      in
      (case monthrange_days prev_year prev_month of
         Inl x \<Rightarrow> Inl x
       | Inr last_day \<Rightarrow>
          (case new_datetime prev_year prev_month 1 0 0 0 of
             Inl x \<Rightarrow> Inl x
           | Inr start_time \<Rightarrow>
              (case new_datetime prev_year prev_month last_day 23 59 59 of
                 Inl x \<Rightarrow> Inl x
               | Inr end_time \<Rightarrow> Inr (Some start_time, Some end_time))),
       w'))"

text \<open>\<open>timedelta(hours=24)\<close> is the timedelta of one day.\<close>

definition get_last_24_hours_range :: "env \<Rightarrow> world \<Rightarrow> (py_error + time_range) \<times> world" where
  "get_last_24_hours_range e w =
     (let (now, w') = utcnow e w in
      (case dt_minus now 1 0 of
         Inl x \<Rightarrow> Inl x
       | Inr start_time \<Rightarrow> Inr (Some start_time, Some now),
       w'))"

text \<open>The whole body is inside \<open>try\<close>: whatever is raised gives \<open>(None, None)\<close>.\<close>

definition explicit_range_body :: "env \<Rightarrow> string list \<Rightarrow> py_error + time_range" where
  "explicit_range_body e groups =
     (case groups of
        [start_date_str, end_date_str] \<Rightarrow>
          (case dateutil_parse e start_date_str of
             None \<Rightarrow> Inl (ValueError ''Unknown string format'')
           | Some s \<Rightarrow>
              (case dateutil_parse e end_date_str of
                 None \<Rightarrow> Inl (ValueError ''Unknown string format'')
               | Some t \<Rightarrow>
                  (case new_datetime (year s) (month s) (day s) 0 0 0 of
                     Inl x \<Rightarrow> Inl x
                   | Inr start_time \<Rightarrow>
                      (case new_datetime (year t) (month t) (day t) 23 59 59 of
                         Inl x \<Rightarrow> Inl x
                       | Inr end_time \<Rightarrow> Inr (Some start_time, Some end_time)))))
      | _ \<Rightarrow> Inl (ValueError ''no such group''))"

definition get_explicit_date_range :: "env \<Rightarrow> string list \<Rightarrow> time_range" where
  "get_explicit_date_range e groups =
     (case explicit_range_body e groups of Inl x \<Rightarrow> (None, None) | Inr r \<Rightarrow> r)"

fun call_rule ::
  "env \<Rightarrow> world \<Rightarrow> time_rule \<Rightarrow> string list \<Rightarrow> (py_error + time_range) \<times> world" where
  "call_rule e w Today groups = get_today_range e w"
| "call_rule e w Yesterday groups = get_yesterday_range e w"
| "call_rule e w LastWeek groups = get_last_week_range e w"
| "call_rule e w LastMonth groups = get_last_month_range e w"
| "call_rule e w Last24Hours groups = get_last_24_hours_range e w"
| "call_rule e w ExplicitRange groups = (Inr (get_explicit_date_range e groups), w)"

subsection \<open>Extraction of the filters\<close>

fun time_filter_loop ::
  "env \<Rightarrow> world \<Rightarrow> string \<Rightarrow> (regex \<times> time_rule) list \<Rightarrow> (py_error + time_range) \<times> world" where
  "time_filter_loop e w query [] = (Inr (None, None), w)"
| "time_filter_loop e w query ((pattern, func) # rest) =
     (case re_search pattern query of
        Some groups \<Rightarrow> call_rule e w func groups
      | None \<Rightarrow> time_filter_loop e w query rest)"

definition extract_time_filter ::
  "env \<Rightarrow> world \<Rightarrow> string \<Rightarrow> (py_error + time_range) \<times> world" where
  "extract_time_filter e w query = time_filter_loop e w query time_patterns"

fun status_filter_loop :: "string \<Rightarrow> (regex \<times> string) list \<Rightarrow> string option" where
  "status_filter_loop query [] = None"
| "status_filter_loop query ((pattern, status) # rest) =
     (case re_search pattern query of
        Some groups \<Rightarrow> Some status
      | None \<Rightarrow> status_filter_loop query rest)"

definition extract_status_filter :: "string \<Rightarrow> string option" where
  "extract_status_filter query = status_filter_loop query status_patterns"

subsection \<open>The query and its result\<close>

text \<open>A datetime object is always truthy, and so is each of the two status texts, so
  \<open>if start_time:\<close> and \<open>if status:\<close> test for \<open>None\<close>.\<close>

definition build_query ::
  "datetime option \<Rightarrow> datetime option \<Rightarrow> string option \<Rightarrow> query_plan" where
  "build_query start_time end_time status =
     (let q0 = \<lparr>table_name = ''scenarios'', gte_created = None, lte_created = None,
                eq_status = None, order_column = None, order_desc = False,
                row_limit = None\<rparr>;
          q1 = (case start_time of None \<Rightarrow> q0 | Some a \<Rightarrow> q0\<lparr>gte_created := Some a\<rparr>);
          q2 = (case end_time of None \<Rightarrow> q1 | Some b \<Rightarrow> q1\<lparr>lte_created := Some b\<rparr>);
          q3 = (case status of None \<Rightarrow> q2
                | Some st \<Rightarrow> if st \<noteq> [] then q2\<lparr>eq_status := Some st\<rparr> else q2);
          q4 = q3\<lparr>order_column := Some ''createdTimestamp'', order_desc := True\<rparr>
      in if start_time = None \<and> end_time = None then q4\<lparr>row_limit := Some 20\<rparr> else q4)"

record formatted_row =
  Run_ID :: string
  Scenario_ID :: string
  Scenario :: json
  Process_ID :: string
  Process :: json
  Flow_ID :: string
  Flow :: json
  Status :: string
  Timestamp :: pg_time

definition format_row :: "env \<Rightarrow> store_row \<Rightarrow> formatted_row" where
  "format_row e row =
     \<lparr>Run_ID = runId row, Scenario_ID = scenarioId row, Scenario = scenarioName row,
      Process_ID = processId row, Process = processName row,
      Flow_ID = flowId row, Flow = flowName row,
      Status = rowRunStatus row, Timestamp = created_at e row\<rparr>"

definition format_results :: "env \<Rightarrow> store_row list \<Rightarrow> formatted_row list" where
  "format_results e rows = map (format_row e) rows"

text \<open>The dict that a query returns; a key that is not set is \<open>None\<close>.\<close>

record query_result =
  success :: bool
  message :: "string option"
  results :: "formatted_row list option"
  count :: "nat option"

text \<open>The description of the time range in the message for an empty result. Every
  test of the \<open>if\<close>/\<open>elif\<close> chain that is reached reads the clock again.\<close>

definition time_description :: "env \<Rightarrow> world \<Rightarrow> datetime \<Rightarrow> datetime \<Rightarrow> string \<times> world" where
  "time_description e w start_time end_time =
     (let (n1, w1) = utcnow e w in
      if date_of start_time = date_of n1 then (''today'', w1)
      else
        let (n2, w2) = utcnow e w1 in
        if td_days (dt_diff n2 start_time) = 1 then (''yesterday'', w2)
        else
          let (n3, w3) = utcnow e w2 in
          if td_days (dt_diff n3 start_time) = 7 then (''for the last week'', w3)
          else if day start_time = 1 \<and> day end_time > 28
            then (''for '' @ strftime_B_Y start_time, w3)
          else
            let (n4, w4) = utcnow e w3 in
            if total_seconds_le (dt_diff n4 start_time) 86400 then (''in the last 24 hours'', w4)
            else (''between '' @ strftime_B_d_Y start_time @ '' and '' @ strftime_B_d_Y end_time,
                  w4))"

definition no_results_message ::
  "env \<Rightarrow> world \<Rightarrow> datetime option \<Rightarrow> datetime option \<Rightarrow> string option \<Rightarrow> string \<times> world" where
  "no_results_message e w start_time end_time status =
     (let m0 = ''No scenarios found'';
          m1 = (case status of None \<Rightarrow> m0
                | Some st \<Rightarrow> if st \<noteq> [] then m0 @ '' with status '' @ [CHR 0x27] @ st @ [CHR 0x27]
                             else m0)
      in case (start_time, end_time) of
           (Some a, Some b) \<Rightarrow>
             (let (d, w') = time_description e w a b in (m1 @ '' '' @ d, w'))
         | _ \<Rightarrow> (m1, w))"

text \<open>\<open>FilterAgent.process_query\<close>. An exception raised inside is caught and reported
  in the result.\<close>

definition agent_process_query :: "env \<Rightarrow> world \<Rightarrow> string \<Rightarrow> query_result \<times> world" where
  "agent_process_query e w query =
     (case extract_time_filter e w query of
        (Inl x, w1) \<Rightarrow>
          (\<lparr>success = False, message = Some (''Error processing query: '' @ exc_str x),
            results = None, count = None\<rparr>, w1)
      | (Inr (start_time, end_time), w1) \<Rightarrow>
          (let status = extract_status_filter query;
               supabase_query = build_query start_time end_time status;
               (rows, w2) = store_execute e supabase_query w1
           in if rows \<noteq> [] then
                (let formatted_results = format_results e rows in
                 (\<lparr>success = True, message = None, results = Some formatted_results,
                   count = Some (length formatted_results)\<rparr>, w2))
              else
                (let (m, w3) = no_results_message e w2 start_time end_time status in
                 (\<lparr>success = False, message = Some m, results = None, count = None\<rparr>, w3))))"

section \<open>\<open>agents/scenario_data_fetcher.py\<close>\<close>

text \<open>\<open>get_runs\<close> and \<open>get_report_by_run_id\<close>: \<open>None\<close> for a request that raises or
  does not answer 200, the decoded body otherwise.\<close>

definition http_result :: "http_outcome \<Rightarrow> json option" where
  "http_result r =
     (case r of RequestException \<Rightarrow> None
      | Response code body \<Rightarrow> if code \<noteq> 200 then None else Some body)"

definition get_runs :: "env \<Rightarrow> json option" where
  "get_runs e = http_result (http_get_runs e)"

definition get_report_by_run_id :: "env \<Rightarrow> string \<Rightarrow> json option" where
  "get_report_by_run_id e run_id = http_result (http_get_report e run_id)"

text \<open>\<open>[str(item.get('runId')) for item in items if item.get('runId') is not None]\<close>\<close>

fun run_ids_of_items :: "env \<Rightarrow> json list \<Rightarrow> py_error + string list" where
  "run_ids_of_items e [] = Inr []"
| "run_ids_of_items e (item # rest) =
     (case py_get item ''runId'' JNull of
        Inl x \<Rightarrow> Inl x
      | Inr v \<Rightarrow>
         (case run_ids_of_items e rest of
            Inl x \<Rightarrow> Inl x
          | Inr ids \<Rightarrow> Inr (if v \<noteq> JNull then py_str e v # ids else ids)))"

definition extract_run_ids :: "env \<Rightarrow> json option \<Rightarrow> py_error + string list" where
  "extract_run_ids e api_response =
     (case api_response of
        None \<Rightarrow> Inr []
      | Some r \<Rightarrow>
         if \<not> truthy r then Inr []
         else
           (case r of
              JObj kvs \<Rightarrow>
                (if ''data'' \<in> set (map fst kvs) then
                   (let items = dict_get kvs ''data'' JNull in
                    if \<not> has_len items then Inl TypeError
                    else (case py_iter items of
                            Inl x \<Rightarrow> Inl x
                          | Inr xs \<Rightarrow> run_ids_of_items e xs))
                 else Inr [])
            | JArr xs \<Rightarrow> run_ids_of_items e xs
            | _ \<Rightarrow> Inr []))"

fun timestamps_loop ::
  "env \<Rightarrow> json list \<Rightarrow> (string \<rightharpoonup> json) \<Rightarrow> py_error + (string \<rightharpoonup> json)" where
  "timestamps_loop e [] timestamp_map = Inr timestamp_map"
| "timestamps_loop e (run_data # rest) timestamp_map =
     (case py_get run_data ''runId'' JNull of
        Inl x \<Rightarrow> Inl x
      | Inr run_id \<Rightarrow>
         (case py_get run_data ''createdTimestamp'' JNull of
            Inl x \<Rightarrow> Inl x
          | Inr created_timestamp \<Rightarrow>
             timestamps_loop e rest
               (if run_id \<noteq> JNull \<and> created_timestamp \<noteq> JNull
                then timestamp_map(py_str e run_id \<mapsto> created_timestamp)
                else timestamp_map)))"

definition get_run_timestamps :: "env \<Rightarrow> json \<Rightarrow> py_error + (string \<rightharpoonup> json)" where
  "get_run_timestamps e runs_response =
     (case runs_response of
        JObj kvs \<Rightarrow>
          (if ''data'' \<in> set (map fst kvs) then
             (case py_iter (dict_get kvs ''data'' JNull) of
                Inl x \<Rightarrow> Inl x
              | Inr xs \<Rightarrow> timestamps_loop e xs Map.empty)
           else Inr Map.empty)
      | _ \<Rightarrow> Inr Map.empty)"

subsection \<open>\<open>extract_scenario_details\<close>\<close>

text \<open>
  The traversal appends to the list \<open>scenarios\<close> inside one \<open>try\<close>. Each part of it
  returns the records it appended and the exception that stopped it, if any; a loop stops
  at the first exception and keeps what was appended before.
\<close>

type_synonym appended = "scenario list \<times> py_error option"

fun run_loop :: "('a \<Rightarrow> appended) \<Rightarrow> 'a list \<Rightarrow> appended" where
  "run_loop body [] = ([], None)"
| "run_loop body (x # xs) =
     (case body x of
        (rs, Some err) \<Rightarrow> (rs, Some err)
      | (rs, None) \<Rightarrow> (case run_loop body xs of (rs', err) \<Rightarrow> (rs @ rs', err)))"

text \<open>The status of a scenario, from the first row of its \<open>rowRunStatus\<close>.\<close>

definition status_value_of :: "json \<Rightarrow> string" where
  "status_value_of row_status =
     (case row_status of
        JObj ((first_row, v) # rest) \<Rightarrow>
          if truthy (dict_get ((first_row, v) # rest) first_row JNull)
          then ''Passed'' else ''Failed''
      | _ \<Rightarrow> [])"

fun scenario_body ::
  "env \<Rightarrow> string \<Rightarrow> ts_value \<Rightarrow> json \<Rightarrow> json \<Rightarrow> json \<Rightarrow> json \<Rightarrow> json \<Rightarrow> appended" where
  "scenario_body e run_id timestamp process_id process_name flow_id flow_name (JObj kvs) =
     (let row_status = dict_get kvs ''rowRunStatus'' (JObj []);
          status_value = status_value_of row_status
      in ([\<lparr>runId = run_id,
             scenarioId = py_str e (dict_get kvs ''scenarioId'' (JStr [])),
             scenarioName = dict_get kvs ''scenarioName'' (JStr []),
             flowId = py_str e flow_id,
             flowName = flow_name,
             processId = py_str e process_id,
             processName = process_name,
             createdTimestamp = timestamp,
             rowRunStatus = status_value\<rparr>], None))"
| "scenario_body e run_id timestamp process_id process_name flow_id flow_name _ =
     ([], Some AttributeError)"

fun flow_body :: "env \<Rightarrow> string \<Rightarrow> ts_value \<Rightarrow> json \<Rightarrow> json \<Rightarrow> json \<Rightarrow> appended" where
  "flow_body e run_id timestamp process_id process_name (JObj kvs) =
     (let flow_id = dict_get kvs ''flowId'' (JStr []);
          flow_name = dict_get kvs ''flowName'' (JStr [])
      in case map_of kvs ''scenarioRunDetails'' of
           Some (JArr scenario_details) \<Rightarrow>
             run_loop (scenario_body e run_id timestamp process_id process_name flow_id flow_name)
               scenario_details
         | _ \<Rightarrow> ([], None))"
| "flow_body e run_id timestamp process_id process_name _ = ([], Some AttributeError)"

fun process_body :: "env \<Rightarrow> string \<Rightarrow> ts_value \<Rightarrow> json \<Rightarrow> appended" where
  "process_body e run_id timestamp (JObj kvs) =
     (let process_id = dict_get kvs ''processId'' (JStr []);
          process_name = dict_get kvs ''processName'' (JStr [])
      in case map_of kvs ''flows'' of
           Some (JArr flows) \<Rightarrow>
             run_loop (flow_body e run_id timestamp process_id process_name) flows
         | _ \<Rightarrow> ([], None))"
| "process_body e run_id timestamp _ = ([], Some AttributeError)"

definition run_data_body :: "env \<Rightarrow> string \<Rightarrow> ts_value \<Rightarrow> json \<Rightarrow> appended" where
  "run_data_body e run_id timestamp run_data =
     (case run_data of
        JObj rkvs \<Rightarrow>
          (if ''processResults'' \<in> set (map fst rkvs) then
             (case py_iter (dict_get rkvs ''processResults'' JNull) of
                Inl x \<Rightarrow> ([], Some x)
              | Inr processes \<Rightarrow> run_loop (process_body e run_id timestamp) processes)
           else ([], None))
      | _ \<Rightarrow> ([], None))"

definition traverse_report :: "env \<Rightarrow> string \<Rightarrow> ts_value \<Rightarrow> json \<Rightarrow> appended" where
  "traverse_report e run_id timestamp api_response =
     (case api_response of
        JObj kvs \<Rightarrow>
          (if ''data'' \<in> set (map fst kvs) then
             (case dict_get kvs ''data'' JNull of
                JObj dkvs \<Rightarrow>
                  (if ''processResults'' \<in> set (map fst dkvs) then
                     (let process_results = dict_get dkvs ''processResults'' JNull in
                      case py_in run_id process_results of
                        Inl x \<Rightarrow> ([], Some x)
                      | Inr False \<Rightarrow> ([], None)
                      | Inr True \<Rightarrow>
                         (case py_index process_results run_id of
                            Inl x \<Rightarrow> ([], Some x)
                          | Inr run_data \<Rightarrow> run_data_body e run_id timestamp run_data))
                   else ([], None))
              | _ \<Rightarrow> ([], None))
           else ([], None))
      | _ \<Rightarrow> ([], None))"

text \<open>\<open>run_id\<close> is a string wherever the function is called, so \<open>str(run_id)\<close> is
  \<open>run_id\<close>. \<open>api_response\<close> and \<open>created_timestamp\<close> are \<open>None\<close> or a JSON value. The
  \<open>except\<close> clause logs the exception, and the list built so far is returned.\<close>

definition extract_scenario_details ::
  "env \<Rightarrow> world \<Rightarrow> string \<Rightarrow> json option \<Rightarrow> json option \<Rightarrow> scenario list \<times> world" where
  "extract_scenario_details e w run_id api_response created_timestamp =
     (case api_response of
        None \<Rightarrow> ([], w)
      | Some r \<Rightarrow>
         if \<not> truthy r then ([], w)
         else
           (let (timestamp, w') =
                  (case created_timestamp of
                     None \<Rightarrow> (let (n, w1) = now_local e w in (TsIso n, w1))
                   | Some v \<Rightarrow> (TsJson v, w))
            in (fst (traverse_report e run_id timestamp r), w')))"

subsection \<open>The scenario entries of a report\<close>

text \<open>
  The comment in \<open>extract_scenario_details\<close> gives the structure of a report:
  \<open>data -> processResults -> run_id -> processResults -> [processes] -> flows -> [flows] ->
  scenarioRunDetails -> [scenarios]\<close>. The following functions read a report along this
  path, without any reference to the traversal: the entry of the run, its processes, the
  flows of a process, the scenario entries of a flow, and all scenario entries of the report
  in the order of the path. For one scenario entry, they give the text of its
  \<open>scenarioId\<close> and the status that its \<open>rowRunStatus\<close> stands for.
\<close>

definition run_entry :: "string \<Rightarrow> json \<Rightarrow> json option" where
  "run_entry run_id report =
     (case json_field report ''data'' of
        None \<Rightarrow> None
      | Some data \<Rightarrow>
         (case json_field data ''processResults'' of
            None \<Rightarrow> None
          | Some process_results \<Rightarrow> json_field process_results run_id))"

definition report_processes :: "string \<Rightarrow> json \<Rightarrow> json list" where
  "report_processes run_id report =
     (case run_entry run_id report of
        None \<Rightarrow> []
      | Some run_data \<Rightarrow>
         (case json_field run_data ''processResults'' of
            None \<Rightarrow> []
          | Some processes \<Rightarrow> json_items processes))"

definition process_flows :: "json \<Rightarrow> json list" where
  "process_flows process =
     (case json_field process ''flows'' of Some (JArr flows) \<Rightarrow> flows | _ \<Rightarrow> [])"

definition flow_entries :: "json \<Rightarrow> json list" where
  "flow_entries flow =
     (case json_field flow ''scenarioRunDetails'' of Some (JArr details) \<Rightarrow> details | _ \<Rightarrow> [])"

definition scenario_entries :: "string \<Rightarrow> json \<Rightarrow> json list" where
  "scenario_entries run_id report =
     concat (map (\<lambda>process. concat (map flow_entries (process_flows process)))
               (report_processes run_id report))"

definition entry_id :: "env \<Rightarrow> json \<Rightarrow> string" where
  "entry_id e entry =
     py_str e (case json_field entry ''scenarioId'' of None \<Rightarrow> JStr [] | Some v \<Rightarrow> v)"

definition entry_status :: "json \<Rightarrow> string" where
  "entry_status entry =
     status_value_of (case json_field entry ''rowRunStatus'' of None \<Rightarrow> JObj [] | Some v \<Rightarrow> v)"

subsection \<open>\<open>fetch_all_scenarios\<close>\<close>

fun fetch_loop ::
  "env \<Rightarrow> (string \<rightharpoonup> json) \<Rightarrow> string list \<Rightarrow> world \<Rightarrow> scenario list \<times> world" where
  "fetch_loop e timestamp_map [] w = ([], w)"
| "fetch_loop e timestamp_map (run_id # rest) w =
     (case get_report_by_run_id e run_id of
        None \<Rightarrow> fetch_loop e timestamp_map rest w
      | Some r \<Rightarrow>
         if \<not> truthy r then fetch_loop e timestamp_map rest w
         else
           (let (scenarios, w1) =
                  extract_scenario_details e w run_id (Some r) (timestamp_map run_id);
                (more, w2) = fetch_loop e timestamp_map rest w1
            in (scenarios @ more, w2)))"

definition fetch_all_scenarios :: "env \<Rightarrow> world \<Rightarrow> (py_error + scenario list) \<times> world" where
  "fetch_all_scenarios e w =
     (case get_runs e of
        None \<Rightarrow> (Inr [], w)
      | Some runs_response \<Rightarrow>
         if \<not> truthy runs_response then (Inr [], w)
         else
           (case extract_run_ids e (Some runs_response) of
              Inl x \<Rightarrow> (Inl x, w)
            | Inr run_ids \<Rightarrow>
               (case get_run_timestamps e runs_response of
                  Inl x \<Rightarrow> (Inl x, w)
                | Inr timestamp_map \<Rightarrow>
                   if run_ids = [] then (Inr [], w)
                   else (let (all_scenarios, w') = fetch_loop e timestamp_map run_ids w
                         in (Inr all_scenarios, w')))))"

section \<open>\<open>orchestrator.py\<close>\<close>

text \<open>\<open>get_last_updated_timestamp\<close>: the text of the column is read back as the
  datetime it denotes.\<close>

definition get_last_updated_timestamp :: "world \<Rightarrow> datetime option \<times> world" where
  "get_last_updated_timestamp w =
     (let (data, w') = store_select_last_updated w in
      (case data of [] \<Rightarrow> None | t # rest \<Rightarrow> Some t, w'))"

subsection \<open>\<open>insert_scenarios\<close>\<close>

text \<open>The first loop: every scenario gets the key \<open>last_updated_timestamp\<close>, and a
  \<open>createdTimestamp\<close> that is a datetime object is replaced by its ISO text.\<close>

definition stamp :: "datetime \<Rightarrow> scenario \<Rightarrow> store_row" where
  "stamp current_time s =
     scenario.extend
       (s\<lparr>createdTimestamp :=
            (case createdTimestamp s of TsDatetime d \<Rightarrow> TsIso d | v \<Rightarrow> v)\<rparr>)
       (store_row.fields current_time)"

text \<open>\<open>for i in range(0, len(run_scenarios), batch_size): batch = run_scenarios[i:i+batch_size]\<close>\<close>

definition batch_size :: nat where
  "batch_size = 50"

function batches_from :: "nat \<Rightarrow> 'a list \<Rightarrow> 'a list list" where
  "batches_from i xs =
     (if i < length xs then take batch_size (drop i xs) # batches_from (i + batch_size) xs
      else [])"
  by pat_completeness auto
termination
  by (relation "measure (\<lambda>(i, xs). length xs - i)") (auto simp: batch_size_def)

declare batches_from.simps [simp del]

fun insert_batches :: "env \<Rightarrow> store_row list list \<Rightarrow> world \<Rightarrow> py_error option \<times> world" where
  "insert_batches e [] w = (None, w)"
| "insert_batches e (batch # rest) w =
     (case store_insert e batch w of
        (Some err, w') \<Rightarrow> (Some err, w')
      | (None, w') \<Rightarrow> insert_batches e rest w')"

fun replace_runs ::
  "env \<Rightarrow> store_row list \<Rightarrow> string list \<Rightarrow> world \<Rightarrow> py_error option \<times> world" where
  "replace_runs e scenario_data [] w = (None, w)"
| "replace_runs e scenario_data (run_id # rest) w =
     (let w1 = store_delete run_id w;
          run_scenarios = filter (\<lambda>s. runId s = run_id) scenario_data
      in case insert_batches e (batches_from 0 run_scenarios) w1 of
           (Some err, w2) \<Rightarrow> (Some err, w2)
         | (None, w2) \<Rightarrow> replace_runs e scenario_data rest w2)"

definition insert_scenarios ::
  "env \<Rightarrow> scenario list \<Rightarrow> world \<Rightarrow> (bool \<times> string) \<times> world" where
  "insert_scenarios e scenario_data w =
     (let (current_time, w0) = now_local e w;
          stamped = map (stamp current_time) scenario_data;
          run_ids = set_order e (map runId stamped)
      in case replace_runs e stamped run_ids w0 of
           (None, w') \<Rightarrow>
             ((True, ''Successfully inserted '' @ show_nat (length scenario_data) @ '' scenarios''),
              w')
         | (Some err, w') \<Rightarrow> ((False, ''Error inserting scenarios: '' @ exc_str err), w'))"

subsection \<open>Orchestration\<close>

definition should_run_ingestion :: "env \<Rightarrow> world \<Rightarrow> bool \<times> world" where
  "should_run_ingestion e w =
     (let (last_updated, w1) = get_last_updated_timestamp w in
      case last_updated of
        None \<Rightarrow> (True, w1)
      | Some t \<Rightarrow>
         (let (now, w2) = now_local e w1;
              time_diff = dt_diff now t
          in (total_seconds_gt time_diff 86400, w2)))"

definition ingest_scenarios :: "env \<Rightarrow> world \<Rightarrow> (py_error + bool) \<times> world" where
  "ingest_scenarios e w =
     (let (go, w1) = should_run_ingestion e w in
      if \<not> go then (Inr False, w1)
      else
        (case fetch_all_scenarios e w1 of
           (Inl x, w2) \<Rightarrow> (Inl x, w2)
         | (Inr all_scenarios, w2) \<Rightarrow>
            if all_scenarios \<noteq> [] then
              (let ((ok, msg), w3) = insert_scenarios e all_scenarios w2 in (Inr ok, w3))
            else (Inr False, w2)))"

definition update_failed :: query_result where
  "update_failed =
     \<lparr>success = False,
      message = Some ''Failed to update data from source. Please try again later.'',
      results = Some [], count = Some 0\<rparr>"

definition process_query :: "env \<Rightarrow> world \<Rightarrow> string \<Rightarrow> (py_error + query_result) \<times> world" where
  "process_query e w query =
     (let (stale, w1) = should_run_ingestion e w in
      if stale then
        (case ingest_scenarios e w1 of
           (Inl x, w2) \<Rightarrow> (Inl x, w2)
         | (Inr ok, w2) \<Rightarrow>
            if \<not> ok then (Inr update_failed, w2)
            else (let (result, w3) = agent_process_query e w2 query in (Inr result, w3)))
      else (let (result, w3) = agent_process_query e w1 query in (Inr result, w3)))"

section \<open>Sample inputs\<close>

text \<open>Concrete inputs at which the theorems below are instantiated.\<close>

definition sample_clock :: "nat \<Rightarrow> datetime" where
  "sample_clock k =
     \<lparr>year = 2025, month = 4, day = 15, hour = 10, minute = 30, second = k mod 60,
      microsecond = 0\<rparr>"

text \<open>\<open>dateutil\<close> in 2025 on the two texts of the example query of the program.\<close>

definition sample_parse :: "string \<Rightarrow> datetime option" where
  "sample_parse s =
     (if s = ''April 1'' then
        Some \<lparr>year = 2025, month = 4, day = 1, hour = 0, minute = 0, second = 0, microsecond = 0\<rparr>
      else if s = ''April 10'' then
        Some \<lparr>year = 2025, month = 4, day = 10, hour = 0, minute = 0, second = 0, microsecond = 0\<rparr>
      else None)"

definition sample_env :: env where
  "sample_env =
     \<lparr>utc_clock = sample_clock, local_clock = sample_clock, dateutil_parse = sample_parse,
      http_get_runs = RequestException, http_get_report = (\<lambda>run_id. RequestException),
      py_repr = (\<lambda>v. []), pg_parse = (\<lambda>v. None), set_order = remdups\<rparr>"

definition empty_world :: world where
  "empty_world = \<lparr>store = [], ticks = 0, trace = []\<rparr>"

text \<open>A store with a failed scenario of 14 April and a passed scenario of 15 April.\<close>

definition yesterday_failed_row :: store_row where
  "yesterday_failed_row =
     \<lparr>runId = ''101'', scenarioId = ''s1'', scenarioName = JStr ''Login'',
      flowId = ''f1'', flowName = JStr ''Auth'', processId = ''p1'',
      processName = JStr ''Onboarding'',
      createdTimestamp = TsIso \<lparr>year = 2025, month = 4, day = 14, hour = 9, minute = 0,
                                 second = 0, microsecond = 0\<rparr>,
      rowRunStatus = ''Failed'',
      last_updated_timestamp = \<lparr>year = 2025, month = 4, day = 15, hour = 9, minute = 30,
                                  second = 0, microsecond = 0\<rparr>\<rparr>"

definition today_passed_row :: store_row where
  "today_passed_row =
     \<lparr>runId = ''102'', scenarioId = ''s1'', scenarioName = JStr ''Login'',
      flowId = ''f1'', flowName = JStr ''Auth'', processId = ''p1'',
      processName = JStr ''Onboarding'',
      createdTimestamp = TsIso \<lparr>year = 2025, month = 4, day = 15, hour = 9, minute = 0,
                                 second = 0, microsecond = 0\<rparr>,
      rowRunStatus = ''Passed'',
      last_updated_timestamp = \<lparr>year = 2025, month = 4, day = 15, hour = 9, minute = 30,
                                  second = 0, microsecond = 0\<rparr>\<rparr>"

definition sample_world :: world where
  "sample_world = \<lparr>store = [yesterday_failed_row, today_passed_row], ticks = 0, trace = []\<rparr>"

text \<open>A report of run 101 with three scenarios in one flow of one process, and a report
  without the key \<open>processResults\<close>.\<close>

definition sample_scenario_items :: "(string \<times> json) list list" where
  "sample_scenario_items =
     [[(''scenarioId'', JStr ''s1''), (''scenarioName'', JStr ''Login''),
       (''rowRunStatus'', JObj [(''0'', JBool True), (''1'', JBool False)])],
      [(''scenarioId'', JStr ''s2''), (''scenarioName'', JStr ''Logout''),
       (''rowRunStatus'', JObj [(''0'', JBool False), (''1'', JBool True)])],
      [(''scenarioId'', JStr ''s3''), (''scenarioName'', JStr ''Reset''),
       (''rowRunStatus'', JObj [])]]"

definition sample_scenarios :: "json list" where
  "sample_scenarios = map JObj sample_scenario_items"

definition sample_flow :: "(string \<times> json) list" where
  "sample_flow =
     [(''flowId'', JStr ''f1''), (''flowName'', JStr ''Auth''),
      (''scenarioRunDetails'', JArr sample_scenarios)]"

definition sample_report :: json where
  "sample_report =
     JObj [(''data'', JObj [(''processResults'', JObj [(''101'',
       JObj [(''processResults'', JArr [
         JObj [(''processId'', JStr ''p1''), (''processName'', JStr ''Onboarding''),
               (''flows'', JArr [
                  JObj sample_flow])]])])])])]"

definition malformed_report :: json where
  "malformed_report = JObj [(''data'', JObj [(''status'', JStr ''ok'')])]"


text \<open>One collected record of run 101.\<close>

definition sample_scenario :: scenario where
  "sample_scenario =
     \<lparr>runId = ''101'', scenarioId = ''s1'', scenarioName = JStr ''Login'', flowId = ''f1'',
      flowName = JStr ''Auth'', processId = ''p1'', processName = JStr ''Onboarding'',
      createdTimestamp =
        TsIso \<lparr>year = 2025, month = 4, day = 14, hour = 9, minute = 0, second = 0,
               microsecond = 0\<rparr>,
      rowRunStatus = ''Passed''\<rparr>"

section \<open>Properties\<close>

subsection \<open>Dates and times\<close>

lemmas sample_simps = sample_env_def empty_world_def sample_clock_def sample_parse_def

lemmas datetime_simps = new_datetime_def days_in_month_def mdays_def isleap_def dt_minus_def
  second_of_day_def date_of_def prev_day_def monthrange_days_def dt_le_def dt_tuple_def

lemma days_back_numeral [simp]:
  "days_back (numeral k) ymd =
     (case prev_day ymd of None \<Rightarrow> None | Some p \<Rightarrow> days_back (pred_numeral k) p)"
  by (simp add: numeral_eq_Suc)

lemma days_back_1 [simp]: "days_back 1 ymd = prev_day ymd"
  by (simp split: option.splits)

lemma prev_day_less: "prev_day d = Some p \<Longrightarrow> p < d"
  by (auto simp: prev_day_def split: prod.splits if_splits)

lemma days_back_le: "days_back n d = Some a \<Longrightarrow> a \<le> d"
proof (induction n arbitrary: d)
  case 0
  then show ?case by simp
next
  case (Suc n)
  then obtain p where p: "prev_day d = Some p" and a: "days_back n p = Some a"
    by (auto split: option.splits)
  from Suc.IH [OF a] prev_day_less [OF p] show ?case by simp
qed

lemma new_datetime_fields:
  "new_datetime y m d hh mm ss = Inr t \<Longrightarrow>
     t = \<lparr>year = y, month = m, day = d, hour = hh, minute = mm, second = ss, microsecond = 0\<rparr>
     \<and> 1 \<le> d"
  by (auto simp: new_datetime_def split: if_splits)

lemma today_ordered:
  "get_today_range e w = (Inr (Some s, Some t), w') \<Longrightarrow> dt_le s t"
  by (auto simp: get_today_range_def utcnow_def dt_le_def dt_tuple_def
           split: sum.splits dest!: new_datetime_fields)

lemma yesterday_ordered:
  "get_yesterday_range e w = (Inr (Some s, Some t), w') \<Longrightarrow> dt_le s t"
  by (auto simp: get_yesterday_range_def utcnow_def dt_le_def dt_tuple_def
           split: sum.splits dest!: new_datetime_fields)

lemma dt_minus_days:
  assumes "dt_minus t dd 0 = Inr u"
  shows "days_back dd (date_of t) = Some (date_of u)"
proof -
  have "nat (- (int (second_of_day t) div 86400)) = 0"
    by (simp add: pos_imp_zdiv_nonneg_iff)
  with assms show ?thesis
    by (auto simp: dt_minus_def Let_def date_of_def split: option.splits prod.splits)
qed

lemma last_24_hours_ordered:
  assumes "get_last_24_hours_range e w = (Inr (Some s, Some t), w')"
  shows "dt_le s t"
proof -
  from assms have "dt_minus t 1 0 = Inr s"
    by (auto simp: get_last_24_hours_range_def utcnow_def split: sum.splits)
  then have "days_back 1 (date_of t) = Some (date_of s)" by (rule dt_minus_days)
  then have "prev_day (date_of t) = Some (date_of s)" by (simp split: option.splits)
  then have "date_of s < date_of t" by (rule prev_day_less)
  then show ?thesis
    by (auto simp: dt_le_def dt_tuple_def date_of_def)
qed

lemma last_month_ordered:
  "get_last_month_range e w = (Inr (Some s, Some t), w') \<Longrightarrow> dt_le s t"
  by (auto simp: get_last_month_range_def utcnow_def dt_le_def dt_tuple_def Let_def
           split: sum.splits if_splits dest!: new_datetime_fields)

lemma last_week_ordered:
  assumes "get_last_week_range e w = (Inr (Some s, Some t), w')"
  shows "dt_le s t"
proof -
  from assms obtain t0 where t0: "new_datetime (year (utc_clock e (ticks w))) (month (utc_clock e (ticks w)))
        (day (utc_clock e (ticks w))) 0 0 0 = Inr t0"
    and s: "dt_minus t0 7 0 = Inr s" and t: "dt_minus t0 0 1 = Inr t"
    by (auto simp: get_last_week_range_def utcnow_def split: sum.splits)
  from new_datetime_fields [OF t0] have sod: "second_of_day t0 = 0"
    by (simp add: second_of_day_def)
  from s have ds: "days_back 7 (date_of t0) = Some (date_of s)" by (rule dt_minus_days)
  from s sod have hs: "hour s = 0 \<and> minute s = 0 \<and> second s = 0 \<and> microsecond s = microsecond t0"
    by (auto simp: dt_minus_def Let_def split: option.splits prod.splits)
  from t sod have dt: "prev_day (date_of t0) = Some (date_of t)"
    and ht: "hour t = 23 \<and> minute t = 59 \<and> second t = 59 \<and> microsecond t = microsecond t0"
    by (auto simp: dt_minus_def Let_def date_of_def split: option.splits prod.splits)
  from ds dt have "days_back 6 (date_of t) = Some (date_of s)" by simp
  then have "date_of s \<le> date_of t" by (rule days_back_le)
  with hs ht show ?thesis
    by (auto simp: dt_le_def dt_tuple_def date_of_def)
qed

lemma explicit_ordered:
  assumes "get_explicit_date_range e [g1, g2] = (Some s, Some t)"
    and "dateutil_parse e g1 = Some d1" and "dateutil_parse e g2 = Some d2"
  shows "dt_le s t \<longleftrightarrow> date_of d1 \<le> date_of d2"
  using assms
  by (auto simp: get_explicit_date_range_def explicit_range_body_def dt_le_def dt_tuple_def
        date_of_def split: sum.splits dest!: new_datetime_fields)

subsection \<open>The shape of an extracted time range\<close>

lemma call_rule_shape:
  assumes "call_rule e w f groups = (Inr (s, t), w')"
  shows "(s = None \<and> t = None) \<or> (\<exists>a b. s = Some a \<and> t = Some b)"
proof (cases f)
  case Today
  with assms show ?thesis
    by (auto simp: get_today_range_def utcnow_def split: sum.splits)
next
  case Yesterday
  with assms show ?thesis
    by (auto simp: get_yesterday_range_def utcnow_def split: sum.splits)
next
  case LastWeek
  with assms show ?thesis
    by (auto simp: get_last_week_range_def utcnow_def split: sum.splits)
next
  case LastMonth
  with assms show ?thesis
    by (auto simp: get_last_month_range_def utcnow_def Let_def split: sum.splits)
next
  case Last24Hours
  with assms show ?thesis
    by (auto simp: get_last_24_hours_range_def utcnow_def split: sum.splits)
next
  case ExplicitRange
  with assms show ?thesis
    by (auto simp: get_explicit_date_range_def explicit_range_body_def
             split: sum.splits list.splits option.splits)
qed

lemma time_filter_loop_shape:
  assumes "time_filter_loop e w query ps = (Inr (s, t), w')"
  shows "(s = None \<and> t = None) \<or> (\<exists>a b. s = Some a \<and> t = Some b)"
  using assms
proof (induction ps)
  case Nil
  then show ?case by simp
next
  case (Cons p ps)
  obtain pattern func where p: "p = (pattern, func)" by (cases p)
  show ?case
  proof (cases "re_search pattern query")
    case None
    with Cons p show ?thesis by simp
  next
    case (Some groups)
    with Cons.prems p have "call_rule e w func groups = (Inr (s, t), w')" by simp
    then show ?thesis by (rule call_rule_shape)
  qed
qed

subsection \<open>The query plan\<close>

lemma build_query_row_limit:
  "row_limit (build_query s t st) = (if s = None \<and> t = None then Some 20 else None)"
  by (simp add: build_query_def Let_def split: option.splits)

lemma build_query_order:
  "order_column (build_query s t st) = Some ''createdTimestamp'' \<and>
   order_desc (build_query s t st)"
  by (simp add: build_query_def Let_def split: option.splits)

lemma store_execute_limit:
  "row_limit q = Some n \<Longrightarrow> length (fst (store_execute e q w)) \<le> n"
  by (simp add: store_execute_def Let_def)

text \<open>
  Claim C7. Whatever the query, the time filter extracted from it is either absent (both
  bounds \<open>None\<close>) or present (both bounds set). The plan built from it has the limit 20 in
  the first case, and then the store returns at most 20 rows; it has no limit in the second
  case. In both cases the plan orders by \<open>createdTimestamp\<close>, descending.
\<close>

theorem query_plan_limit:
  assumes "extract_time_filter e w query = (Inr (start_time, end_time), w')"
  shows "(let plan = build_query start_time end_time (extract_status_filter query) in
           ((start_time = None \<and> end_time = None \<and> row_limit plan = Some 20 \<and>
               length (fst (store_execute e plan w')) \<le> 20) \<or>
            ((\<exists>a b. start_time = Some a \<and> end_time = Some b) \<and> row_limit plan = None)) \<and>
           order_column plan = Some ''createdTimestamp'' \<and> order_desc plan)"
proof -
  from assms have "(start_time = None \<and> end_time = None) \<or>
      (\<exists>a b. start_time = Some a \<and> end_time = Some b)"
    unfolding extract_time_filter_def by (rule time_filter_loop_shape)
  then show ?thesis
    using store_execute_limit
      [of "build_query start_time end_time (extract_status_filter query)" 20 e w']
    by (auto simp: Let_def build_query_row_limit build_query_order)
qed

theorem query_plan_limit_witness:
  "extract_time_filter sample_env empty_world ''Show me the most recent scenarios''
     = (Inr (None, None), empty_world) \<and>
   row_limit (build_query None None (extract_status_filter ''Show me the most recent scenarios''))
     = Some 20"
proof -
  have h: "extract_time_filter sample_env empty_world ''Show me the most recent scenarios''
     = (Inr (None, None), empty_world)"
    by code_simp
  from query_plan_limit [OF h] h show ?thesis
    by (simp add: Let_def)
qed

subsection \<open>Order of the phrase rules\<close>

lemma extract_time_filter_unfold:
  "extract_time_filter e w query =
     (if re_search pat_today query \<noteq> None then get_today_range e w
      else if re_search pat_yesterday query \<noteq> None then get_yesterday_range e w
      else if re_search pat_last_week query \<noteq> None then get_last_week_range e w
      else if re_search pat_last_month query \<noteq> None then get_last_month_range e w
      else if re_search pat_last_24_hours query \<noteq> None then get_last_24_hours_range e w
      else (case re_search pat_explicit query of
              Some groups \<Rightarrow> (Inr (get_explicit_date_range e groups), w)
            | None \<Rightarrow> (Inr (None, None), w)))"
  by (auto simp: extract_time_filter_def time_patterns_def split: option.splits)


text \<open>
  Claim C6. The phrase rules are tested in the order today, yesterday, last week, last month,
  last 24 hours, explicit range, and the range returned is the one of the first rule whose
  pattern is found in the query, whatever later rules match as well; without any match the
  range is absent.
\<close>

theorem time_rules_in_order:
  "(re_search pat_today query \<noteq> None \<longrightarrow>
      extract_time_filter e w query = get_today_range e w) \<and>
   (re_search pat_today query = None \<and> re_search pat_yesterday query \<noteq> None \<longrightarrow>
      extract_time_filter e w query = get_yesterday_range e w) \<and>
   (re_search pat_today query = None \<and> re_search pat_yesterday query = None \<and>
    re_search pat_last_week query \<noteq> None \<longrightarrow>
      extract_time_filter e w query = get_last_week_range e w) \<and>
   (re_search pat_today query = None \<and> re_search pat_yesterday query = None \<and>
    re_search pat_last_week query = None \<and> re_search pat_last_month query \<noteq> None \<longrightarrow>
      extract_time_filter e w query = get_last_month_range e w) \<and>
   (re_search pat_today query = None \<and> re_search pat_yesterday query = None \<and>
    re_search pat_last_week query = None \<and> re_search pat_last_month query = None \<and>
    re_search pat_last_24_hours query \<noteq> None \<longrightarrow>
      extract_time_filter e w query = get_last_24_hours_range e w) \<and>
   (\<forall>groups. re_search pat_today query = None \<and> re_search pat_yesterday query = None \<and>
    re_search pat_last_week query = None \<and> re_search pat_last_month query = None \<and>
    re_search pat_last_24_hours query = None \<and> re_search pat_explicit query = Some groups \<longrightarrow>
      extract_time_filter e w query = (Inr (get_explicit_date_range e groups), w)) \<and>
   (re_search pat_today query = None \<and> re_search pat_yesterday query = None \<and>
    re_search pat_last_week query = None \<and> re_search pat_last_month query = None \<and>
    re_search pat_last_24_hours query = None \<and> re_search pat_explicit query = None \<longrightarrow>
      extract_time_filter e w query = (Inr (None, None), w))"
  by (auto simp: extract_time_filter_unfold)

lemma today_sample:
  "get_today_range sample_env empty_world =
     (Inr (Some \<lparr>year = 2025, month = 4, day = 15, hour = 0, minute = 0, second = 0,
                  microsecond = 0\<rparr>,
           Some \<lparr>year = 2025, month = 4, day = 15, hour = 10, minute = 30, second = 0,
                  microsecond = 0\<rparr>),
      \<lparr>store = [], ticks = 1, trace = []\<rparr>)"
  by (simp add: get_today_range_def utcnow_def sample_simps datetime_simps)

lemma last_week_sample:
  "get_last_week_range sample_env empty_world =
     (Inr (Some \<lparr>year = 2025, month = 4, day = 8, hour = 0, minute = 0, second = 0,
                  microsecond = 0\<rparr>,
           Some \<lparr>year = 2025, month = 4, day = 14, hour = 23, minute = 59, second = 59,
                  microsecond = 0\<rparr>),
      \<lparr>store = [], ticks = 1, trace = []\<rparr>)"
  by (simp add: get_last_week_range_def utcnow_def sample_simps datetime_simps)

theorem time_rules_in_order_witness:
  "re_search pat_today ''failed today and last week'' \<noteq> None \<and>
   re_search pat_last_week ''failed today and last week'' \<noteq> None \<and>
   extract_time_filter sample_env empty_world ''failed today and last week''
     = get_today_range sample_env empty_world \<and>
   get_today_range sample_env empty_world \<noteq> get_last_week_range sample_env empty_world"
proof -
  have a: "re_search pat_today ''failed today and last week'' \<noteq> None" by code_simp
  have b: "re_search pat_last_week ''failed today and last week'' \<noteq> None" by code_simp
  have c: "get_today_range sample_env empty_world \<noteq> get_last_week_range sample_env empty_world"
    by (simp add: today_sample last_week_sample)
  from time_rules_in_order [of "''failed today and last week''" sample_env empty_world] a b c
  show ?thesis by blast
qed

subsection \<open>Order of the bounds of a range\<close>

lemma explicit_some:
  assumes "get_explicit_date_range e groups = (Some s, Some t)"
  shows "\<exists>g1 g2 d1 d2. groups = [g1, g2] \<and> dateutil_parse e g1 = Some d1 \<and>
           dateutil_parse e g2 = Some d2 \<and> (dt_le s t \<longleftrightarrow> date_of d1 \<le> date_of d2)"
proof -
  from assms obtain g1 g2 where g: "groups = [g1, g2]"
    by (auto simp: get_explicit_date_range_def explicit_range_body_def
             split: list.splits sum.splits)
  from assms g obtain d1 d2 where d: "dateutil_parse e g1 = Some d1" "dateutil_parse e g2 = Some d2"
    by (auto simp: get_explicit_date_range_def explicit_range_body_def
             split: option.splits sum.splits)
  from explicit_ordered [OF assms [unfolded g] d] g d show ?thesis by blast
qed

text \<open>
  Claim C2, as amended. When the extractor returns a range with both bounds, then
  \<^item> if one of the five relative rules (today, yesterday, last week, last month, last 24
    hours) is the first match, the start is not after the end;
  \<^item> otherwise the range comes from the phrase \<open>from <date> to <date>\<close>, both dates were
    parsed, and the start is not after the end exactly when the first date is not after
    the second one: the two dates are taken in the order in which they are written.
\<close>

theorem time_range_ordered:
  assumes "extract_time_filter e w query = (Inr (Some s, Some t), w')"
  shows "if re_search pat_today query = None \<and> re_search pat_yesterday query = None \<and>
            re_search pat_last_week query = None \<and> re_search pat_last_month query = None \<and>
            re_search pat_last_24_hours query = None
         then (\<exists>g1 g2 d1 d2. re_search pat_explicit query = Some [g1, g2] \<and>
                 dateutil_parse e g1 = Some d1 \<and> dateutil_parse e g2 = Some d2 \<and>
                 (dt_le s t \<longleftrightarrow> date_of d1 \<le> date_of d2))
         else dt_le s t"
proof (cases "re_search pat_today query = None \<and> re_search pat_yesterday query = None \<and>
            re_search pat_last_week query = None \<and> re_search pat_last_month query = None \<and>
            re_search pat_last_24_hours query = None")
  case True
  with assms obtain groups where g: "re_search pat_explicit query = Some groups"
    and r: "get_explicit_date_range e groups = (Some s, Some t)"
    by (auto simp: extract_time_filter_unfold split: option.splits)
  from explicit_some [OF r] g True show ?thesis by auto
next
  case False
  with assms have "dt_le s t"
    by (auto simp: extract_time_filter_unfold split: if_splits
             dest: today_ordered yesterday_ordered last_week_ordered last_month_ordered
                   last_24_hours_ordered)
  with False show ?thesis by auto
qed

lemma explicit_query_matches:
  "re_search pat_today ''Show me scenarios from April 1 to April 10'' = None"
  "re_search pat_yesterday ''Show me scenarios from April 1 to April 10'' = None"
  "re_search pat_last_week ''Show me scenarios from April 1 to April 10'' = None"
  "re_search pat_last_month ''Show me scenarios from April 1 to April 10'' = None"
  "re_search pat_last_24_hours ''Show me scenarios from April 1 to April 10'' = None"
  "re_search pat_explicit ''Show me scenarios from April 1 to April 10''
     = Some [''April 1'', ''April 10'']"
  by code_simp+

theorem time_range_ordered_witness:
  "extract_time_filter sample_env empty_world ''Show me scenarios from April 1 to April 10'' =
     (Inr (Some \<lparr>year = 2025, month = 4, day = 1, hour = 0, minute = 0, second = 0,
                  microsecond = 0\<rparr>,
           Some \<lparr>year = 2025, month = 4, day = 10, hour = 23, minute = 59, second = 59,
                  microsecond = 0\<rparr>), empty_world) \<and>
   dt_le \<lparr>year = 2025, month = 4, day = 1, hour = 0, minute = 0, second = 0, microsecond = 0\<rparr>
         \<lparr>year = 2025, month = 4, day = 10, hour = 23, minute = 59, second = 59,
          microsecond = 0\<rparr>"
proof -
  have h: "extract_time_filter sample_env empty_world ''Show me scenarios from April 1 to April 10'' =
     (Inr (Some \<lparr>year = 2025, month = 4, day = 1, hour = 0, minute = 0, second = 0,
                  microsecond = 0\<rparr>,
           Some \<lparr>year = 2025, month = 4, day = 10, hour = 23, minute = 59, second = 59,
                  microsecond = 0\<rparr>), empty_world)"
    by (simp add: extract_time_filter_unfold explicit_query_matches get_explicit_date_range_def
          explicit_range_body_def sample_simps datetime_simps)
  from time_range_ordered [OF h] have
    "\<exists>g1 g2 d1 d2. [''April 1'', ''April 10''] = [g1, g2] \<and>
       dateutil_parse sample_env g1 = Some d1 \<and> dateutil_parse sample_env g2 = Some d2 \<and>
       (dt_le \<lparr>year = 2025, month = 4, day = 1, hour = 0, minute = 0, second = 0, microsecond = 0\<rparr>
          \<lparr>year = 2025, month = 4, day = 10, hour = 23, minute = 59, second = 59,
           microsecond = 0\<rparr> \<longleftrightarrow> date_of d1 \<le> date_of d2)"
    by (simp add: explicit_query_matches)
  then have "dt_le \<lparr>year = 2025, month = 4, day = 1, hour = 0, minute = 0, second = 0, microsecond = 0\<rparr>
          \<lparr>year = 2025, month = 4, day = 10, hour = 23, minute = 59, second = 59,
           microsecond = 0\<rparr>"
    by (auto simp: sample_simps date_of_def)
  with h show ?thesis by simp
qed

lemma reversed_query_matches:
  "re_search pat_today ''Show me scenarios from April 10 to April 1'' = None"
  "re_search pat_yesterday ''Show me scenarios from April 10 to April 1'' = None"
  "re_search pat_last_week ''Show me scenarios from April 10 to April 1'' = None"
  "re_search pat_last_month ''Show me scenarios from April 10 to April 1'' = None"
  "re_search pat_last_24_hours ''Show me scenarios from April 10 to April 1'' = None"
  "re_search pat_explicit ''Show me scenarios from April 10 to April 1''
     = Some [''April 10'', ''April 1'']"
  by code_simp+

text \<open>The claim C2 as it was stated fails for a phrase whose dates are written in
  descending order: both bounds are set and the start is after the end.\<close>

theorem reversed_range_counterexample:
  "extract_time_filter sample_env empty_world ''Show me scenarios from April 10 to April 1'' =
     (Inr (Some \<lparr>year = 2025, month = 4, day = 10, hour = 0, minute = 0, second = 0,
                  microsecond = 0\<rparr>,
           Some \<lparr>year = 2025, month = 4, day = 1, hour = 23, minute = 59, second = 59,
                  microsecond = 0\<rparr>), empty_world) \<and>
   \<not> dt_le \<lparr>year = 2025, month = 4, day = 10, hour = 0, minute = 0, second = 0,
             microsecond = 0\<rparr>
            \<lparr>year = 2025, month = 4, day = 1, hour = 23, minute = 59, second = 59,
             microsecond = 0\<rparr>"
  by (simp add: extract_time_filter_unfold reversed_query_matches get_explicit_date_range_def
        explicit_range_body_def sample_simps datetime_simps)

subsection \<open>An explicit range that cannot be parsed\<close>

lemma explicit_unparsed:
  assumes "\<exists>g \<in> set groups. dateutil_parse e g = None"
  shows "get_explicit_date_range e groups = (None, None)"
proof (cases "explicit_range_body e groups")
  case (Inl x)
  then show ?thesis by (simp add: get_explicit_date_range_def)
next
  case (Inr r)
  then obtain g1 g2 d1 d2 where "groups = [g1, g2]"
    "dateutil_parse e g1 = Some d1" "dateutil_parse e g2 = Some d2"
    by (auto simp: explicit_range_body_def split: list.splits option.splits)
  with assms show ?thesis by auto
qed

text \<open>
  Claim C9. When the captured date text of the phrase \<open>from <date> to <date>\<close> cannot be
  parsed, \<open>_get_explicit_date_range\<close> catches the exception of the parser and returns
  \<open>(None, None)\<close>. So a query in which the explicit rule is the one that answers (it
  contains the phrase and none of the five relative phrases, which are tested first) gets
  the absent range as a value, not an exception, and the state is left as it was.
\<close>

theorem unparsed_explicit_range_is_absent:
  assumes "re_search pat_explicit query = Some groups"
    and "\<exists>g \<in> set groups. dateutil_parse e g = None"
  shows "get_explicit_date_range e groups = (None, None) \<and>
         (re_search pat_today query = None \<and> re_search pat_yesterday query = None \<and>
          re_search pat_last_week query = None \<and> re_search pat_last_month query = None \<and>
          re_search pat_last_24_hours query = None \<longrightarrow>
            extract_time_filter e w query = (Inr (None, None), w))"
  using assms explicit_unparsed [OF assms(2)]
  by (simp add: extract_time_filter_unfold)

lemma unparsed_query_matches:
  "re_search pat_today ''Show me scenarios from Foo 1 to Bar 2'' = None"
  "re_search pat_yesterday ''Show me scenarios from Foo 1 to Bar 2'' = None"
  "re_search pat_last_week ''Show me scenarios from Foo 1 to Bar 2'' = None"
  "re_search pat_last_month ''Show me scenarios from Foo 1 to Bar 2'' = None"
  "re_search pat_last_24_hours ''Show me scenarios from Foo 1 to Bar 2'' = None"
  "re_search pat_explicit ''Show me scenarios from Foo 1 to Bar 2'' = Some [''Foo 1'', ''Bar 2'']"
  by code_simp+

theorem unparsed_explicit_range_is_absent_witness:
  "re_search pat_explicit ''Show me scenarios from Foo 1 to Bar 2'' = Some [''Foo 1'', ''Bar 2''] \<and>
   dateutil_parse sample_env ''Foo 1'' = None \<and>
   extract_time_filter sample_env empty_world ''Show me scenarios from Foo 1 to Bar 2''
     = (Inr (None, None), empty_world)"
proof -
  have p: "dateutil_parse sample_env ''Foo 1'' = None"
    by (simp add: sample_simps)
  then have u: "\<exists>g \<in> set [''Foo 1'', ''Bar 2'']. dateutil_parse sample_env g = None"
    by simp
  from unparsed_explicit_range_is_absent [OF unparsed_query_matches(6) u, of empty_world]
    unparsed_query_matches p
  show ?thesis by simp
qed

subsection \<open>The result of a query\<close>

lemma no_results_message_prefix:
  "\<exists>rest. fst (no_results_message e w s t st) = ''No scenarios found'' @ rest"
  by (auto simp: no_results_message_def Let_def split: option.splits prod.splits)

text \<open>
  Claim C10. The result of \<open>FilterAgent.process_query\<close> has \<open>success = True\<close> only when
  the store returned at least one row, and then it carries the formatted rows and their
  number. Whenever the store returns no row, the result has \<open>success = False\<close>, no
  \<open>results\<close> and no \<open>count\<close>, and the message built by the agent from the status and
  time filters, which starts with \<open>No scenarios found\<close>.
\<close>

theorem empty_result_is_failure:
  assumes "agent_process_query e w query = (r, w')"
  shows "(success r \<longrightarrow>
            (\<exists>s t w1 rows. extract_time_filter e w query = (Inr (s, t), w1) \<and>
               rows = fst (store_execute e (build_query s t (extract_status_filter query)) w1) \<and>
               rows \<noteq> [] \<and> results r = Some (format_results e rows) \<and>
               count r = Some (length rows) \<and> message r = None)) \<and>
         (\<forall>s t w1. extract_time_filter e w query = (Inr (s, t), w1) \<and>
              fst (store_execute e (build_query s t (extract_status_filter query)) w1) = [] \<longrightarrow>
            \<not> success r \<and> results r = None \<and> count r = None \<and>
            (\<exists>rest. message r = Some (''No scenarios found'' @ rest)) \<and>
            message r = Some (fst (no_results_message e
                (snd (store_execute e (build_query s t (extract_status_filter query)) w1))
                s t (extract_status_filter query))))"
proof (cases "extract_time_filter e w query")
  case (Pair res w1)
  show ?thesis
  proof (cases res)
    case (Inl x)
    with Pair assms show ?thesis
      by (auto simp: agent_process_query_def)
  next
    case (Inr st)
    obtain s t where st: "st = (s, t)" by (cases st)
    let ?plan = "build_query s t (extract_status_filter query)"
    obtain rows w2 where ex: "store_execute e ?plan w1 = (rows, w2)"
      by (cases "store_execute e ?plan w1")
    show ?thesis
    proof (cases "rows = []")
      case True
      obtain m w3 where m: "no_results_message e w2 s t (extract_status_filter query) = (m, w3)"
        by (cases "no_results_message e w2 s t (extract_status_filter query)")
      from no_results_message_prefix [of e w2 s t "extract_status_filter query"] m
      obtain rest where "m = ''No scenarios found'' @ rest" by auto
      with Pair Inr st ex True m assms show ?thesis
        by (auto simp: agent_process_query_def Let_def)
    next
      case False
      with Pair Inr st ex assms show ?thesis
        by (auto simp: agent_process_query_def Let_def format_results_def)
    qed
  qed
qed

lemma yesterday_query_matches:
  "re_search pat_today ''Show me all failed scenarios from yesterday'' = None"
  "re_search pat_yesterday ''Show me all failed scenarios from yesterday'' = Some []"
  "extract_status_filter ''Show me all failed scenarios from yesterday'' = Some ''Failed''"
  by code_simp+

lemma yesterday_sample:
  "ticks w = 0 \<Longrightarrow> get_yesterday_range sample_env w =
     (Inr (Some \<lparr>year = 2025, month = 4, day = 14, hour = 0, minute = 0, second = 0,
                  microsecond = 0\<rparr>,
           Some \<lparr>year = 2025, month = 4, day = 14, hour = 23, minute = 59, second = 59,
                  microsecond = 0\<rparr>),
      w\<lparr>ticks := 1\<rparr>)"
  by (simp add: get_yesterday_range_def utcnow_def sample_simps datetime_simps split: option.splits)

lemma yesterday_extract:
  "ticks w = 0 \<Longrightarrow>
   extract_time_filter sample_env w ''Show me all failed scenarios from yesterday''
   =  (Inr (Some \<lparr>year = 2025, month = 4, day = 14, hour = 0, minute = 0, second = 0,
                  microsecond = 0\<rparr>,
           Some \<lparr>year = 2025, month = 4, day = 14, hour = 23, minute = 59, second = 59,
                  microsecond = 0\<rparr>),
      w\<lparr>ticks := 1\<rparr>)"
  by (simp add: extract_time_filter_unfold yesterday_query_matches yesterday_sample)

lemma agent_empty_sample: "fst (agent_process_query sample_env empty_world ''Show me all failed scenarios from yesterday'')
   = \<lparr>success = False, message = Some (''No scenarios found with status '' @ [CHR 0x27] @ ''Failed'' @ [CHR 0x27] @ '' yesterday''), results = None, count = None\<rparr>"
  apply (simp add: agent_process_query_def yesterday_extract yesterday_query_matches empty_world_def)
  apply (simp add: build_query_def store_execute_def
       order_rows_def empty_world_def no_results_message_def time_description_def utcnow_def
       sample_env_def sample_clock_def date_of_def dt_diff_def dt_micros_def toordinal_def
       days_before_year_def days_before_month_def days_in_month_def mdays_def isleap_def
       second_of_day_def td_days_def Let_def)
  done

lemma agent_rows_sample: "fst (agent_process_query sample_env sample_world ''Show me all failed scenarios from yesterday'')
   = \<lparr>success = True, message = None, results = Some [format_row sample_env yesterday_failed_row], count = Some 1\<rparr>"
  apply (simp add: agent_process_query_def yesterday_extract yesterday_query_matches sample_world_def)
  apply (simp add: build_query_def store_execute_def row_selected_def created_at_def
       order_rows_def yesterday_failed_row_def today_passed_row_def format_results_def
       dt_le_def dt_tuple_def created_key_def Let_def)
  done

theorem empty_result_is_failure_witness:
  "fst (store_execute sample_env
          (build_query
             (Some \<lparr>year = 2025, month = 4, day = 14, hour = 0, minute = 0, second = 0,
                     microsecond = 0\<rparr>)
             (Some \<lparr>year = 2025, month = 4, day = 14, hour = 23, minute = 59, second = 59,
                     microsecond = 0\<rparr>)
             (extract_status_filter ''Show me all failed scenarios from yesterday''))
          (empty_world\<lparr>ticks := 1\<rparr>)) = [] \<and>
   \<not> success (fst (agent_process_query sample_env empty_world
                     ''Show me all failed scenarios from yesterday'')) \<and>
   message (fst (agent_process_query sample_env empty_world
                     ''Show me all failed scenarios from yesterday''))
     = Some (''No scenarios found with status '' @ [CHR 0x27] @ ''Failed'' @ [CHR 0x27] @
             '' yesterday'') \<and>
   results (fst (agent_process_query sample_env sample_world
                     ''Show me all failed scenarios from yesterday''))
     = Some [format_row sample_env yesterday_failed_row]"
proof -
  let ?q = "''Show me all failed scenarios from yesterday''"
  obtain r w' where h: "agent_process_query sample_env empty_world ?q = (r, w')"
    by force
  have t0: "ticks empty_world = 0" by (simp add: empty_world_def)
  have rows: "fst (store_execute sample_env
          (build_query
             (Some \<lparr>year = 2025, month = 4, day = 14, hour = 0, minute = 0, second = 0,
                     microsecond = 0\<rparr>)
             (Some \<lparr>year = 2025, month = 4, day = 14, hour = 23, minute = 59, second = 59,
                     microsecond = 0\<rparr>)
             (extract_status_filter ?q))
          (empty_world\<lparr>ticks := 1\<rparr>)) = []"
    by (simp add: store_execute_def order_rows_def empty_world_def Let_def split: option.splits)
  from empty_result_is_failure [OF h] yesterday_extract [OF t0] rows
  have "\<not> success r" by blast
  with h rows agent_empty_sample agent_rows_sample show ?thesis by simp
qed


subsection \<open>Reports without the expected structure\<close>

lemma run_loop_empty:
  "(\<And>x. x \<in> set xs \<Longrightarrow> fst (body x) = []) \<Longrightarrow> fst (run_loop body xs) = []"
proof (induction xs)
  case Nil
  then show ?case by simp
next
  case (Cons x xs)
  then have "fst (body x) = []" "fst (run_loop body xs) = []" by auto
  then show ?case
    by (cases "body x"; cases "run_loop body xs") (auto split: option.splits)
qed

lemma map_of_None_keys: "map_of kvs k = None \<longleftrightarrow> k \<notin> set (map fst kvs)"
  by (simp add: map_of_eq_None_iff)

lemma flow_body_empty:
  "(\<And>sd. json_field f ''scenarioRunDetails'' \<noteq> Some (JArr sd)) \<Longrightarrow>
   fst (flow_body e run_id ts pid pname f) = []"
  by (cases f) (auto simp: json_field_def Let_def split: option.splits json.splits)

lemma process_body_empty:
  assumes "\<And>fl f sd. json_field p ''flows'' = Some (JArr fl) \<Longrightarrow> f \<in> set fl \<Longrightarrow>
              json_field f ''scenarioRunDetails'' \<noteq> Some (JArr sd)"
  shows "fst (process_body e run_id ts p) = []"
proof (cases p)
  case (JObj kvs)
  show ?thesis
  proof (cases "map_of kvs ''flows''")
    case None
    with JObj show ?thesis by (simp add: Let_def)
  next
    case (Some v)
    show ?thesis
    proof (cases v)
      case (JArr fl)
      with Some JObj have "json_field p ''flows'' = Some (JArr fl)" by (simp add: json_field_def)
      with assms have "\<And>f. f \<in> set fl \<Longrightarrow>
          fst (flow_body e run_id ts (dict_get kvs ''processId'' (JStr []))
                 (dict_get kvs ''processName'' (JStr [])) f) = []"
        by (intro flow_body_empty) blast
      then have "fst (run_loop (flow_body e run_id ts (dict_get kvs ''processId'' (JStr []))
                 (dict_get kvs ''processName'' (JStr []))) fl) = []"
        by (rule run_loop_empty)
      with JArr Some JObj show ?thesis by (simp add: Let_def)
    qed (use Some JObj in \<open>simp_all add: Let_def\<close>)
  qed
qed simp_all

lemma run_data_body_empty:
  assumes "json_field rd ''processResults'' = None \<or>
           (\<exists>ps. json_field rd ''processResults'' = Some ps \<and>
              (\<forall>p \<in> set (json_items ps). \<forall>fl. json_field p ''flows'' = Some (JArr fl) \<longrightarrow>
                 (\<forall>f \<in> set fl. \<forall>sd. json_field f ''scenarioRunDetails'' \<noteq> Some (JArr sd))))"
  shows "fst (run_data_body e run_id ts rd) = []"
proof (cases rd)
  case (JObj kvs)
  show ?thesis
  proof (cases "map_of kvs ''processResults''")
    case None
    with JObj show ?thesis
      by (simp add: run_data_body_def map_of_None_keys)
  next
    case (Some ps)
    with JObj assms have all: "\<forall>p \<in> set (json_items ps). \<forall>fl. json_field p ''flows'' = Some (JArr fl) \<longrightarrow>
                 (\<forall>f \<in> set fl. \<forall>sd. json_field f ''scenarioRunDetails'' \<noteq> Some (JArr sd))"
      by (simp add: json_field_def)
    from Some have key: "''processResults'' \<in> set (map fst kvs)"
      using map_of_None_keys [of kvs "''processResults''"] by auto
    show ?thesis
    proof (cases "py_iter ps")
      case (Inl x)
      with JObj Some key show ?thesis
        by (simp add: run_data_body_def dict_get_def)
    next
      case (Inr processes)
      with all have "\<And>p. p \<in> set processes \<Longrightarrow> fst (process_body e run_id ts p) = []"
        by (intro process_body_empty) (auto simp: json_items_def)
      then have "fst (run_loop (process_body e run_id ts) processes) = []"
        by (rule run_loop_empty)
      with JObj Some key Inr show ?thesis
        by (simp add: run_data_body_def dict_get_def)
    qed
  qed
qed (simp_all add: run_data_body_def)

lemma map_of_Some_key: "map_of kvs k = Some v \<Longrightarrow> k \<in> set (map fst kvs)"
  using map_of_None_keys [of kvs k] by auto

lemma traverse_report_cases:
  "fst (traverse_report e run_id ts report) = [] \<or>
   (\<exists>data pr rd. json_field report ''data'' = Some data \<and>
       json_field data ''processResults'' = Some pr \<and> json_field pr run_id = Some rd \<and>
       traverse_report e run_id ts report = run_data_body e run_id ts rd)"
proof (cases report)
  case (JObj kvs)
  show ?thesis
  proof (cases "map_of kvs ''data''")
    case None
    with JObj show ?thesis by (simp add: traverse_report_def map_of_None_keys)
  next
    case (Some data)
    note d = Some map_of_Some_key [OF Some]
    show ?thesis
    proof (cases data)
      case dobj: (JObj dkvs)
      show ?thesis
      proof (cases "map_of dkvs ''processResults''")
        case None
        with JObj d dobj show ?thesis
          by (simp add: traverse_report_def map_of_None_keys dict_get_def)
      next
        case (Some pr)
        note p = Some map_of_Some_key [OF Some]
        show ?thesis
        proof (cases pr)
          case probj: (JObj pkvs)
          show ?thesis
          proof (cases "map_of pkvs run_id")
            case None
            with JObj d dobj p probj show ?thesis
              by (simp add: traverse_report_def map_of_None_keys dict_get_def)
          next
            case (Some rd)
            with JObj d dobj p probj map_of_Some_key [OF Some] show ?thesis
              by (simp add: traverse_report_def dict_get_def json_field_def)
          qed
        qed (use JObj d dobj p in \<open>simp_all add: traverse_report_def dict_get_def split: bool.splits\<close>)
      qed
    qed (use JObj d in \<open>simp_all add: traverse_report_def dict_get_def\<close>)
  qed
qed (simp_all add: traverse_report_def)

text \<open>
  Claim C8. \<open>extract_scenario_details\<close> returns a list and never raises: every exception
  of the traversal is caught inside it. The list is empty whenever the expected structure
  \<open>data.processResults[run_id].processResults[*].flows[*].scenarioRunDetails\<close> is missing
  at a level: the report has no key \<open>data\<close>; or \<open>data\<close> has no key \<open>processResults\<close>; or
  the run id is not a key of it; or the entry of the run has no key \<open>processResults\<close>; or
  no process has a list \<open>flows\<close> with a flow that has a list \<open>scenarioRunDetails\<close>. (A value
  that is not a dict has no keys.)
\<close>

theorem malformed_report_yields_no_records:
  assumes "json_field report ''data'' = None \<or>
     (\<exists>data. json_field report ''data'' = Some data \<and>
        (json_field data ''processResults'' = None \<or>
         (\<exists>pr. json_field data ''processResults'' = Some pr \<and>
            (json_field pr run_id = None \<or>
             (\<exists>rd. json_field pr run_id = Some rd \<and>
                (json_field rd ''processResults'' = None \<or>
                 (\<exists>ps. json_field rd ''processResults'' = Some ps \<and>
                    (\<forall>p \<in> set (json_items ps). \<forall>fl. json_field p ''flows'' = Some (JArr fl) \<longrightarrow>
                       (\<forall>f \<in> set fl. \<forall>sd.
                          json_field f ''scenarioRunDetails'' \<noteq> Some (JArr sd))))))))))"
  shows "fst (extract_scenario_details e w run_id (Some report) created_timestamp) = []"
proof -
  have "fst (traverse_report e run_id ts report) = []" for ts
    using traverse_report_cases [of e run_id ts report]
  proof
    assume "\<exists>data pr rd. json_field report ''data'' = Some data \<and>
       json_field data ''processResults'' = Some pr \<and> json_field pr run_id = Some rd \<and>
       traverse_report e run_id ts report = run_data_body e run_id ts rd"
    then obtain data pr rd where path: "json_field report ''data'' = Some data"
       "json_field data ''processResults'' = Some pr" "json_field pr run_id = Some rd"
       and eq: "traverse_report e run_id ts report = run_data_body e run_id ts rd"
      by blast
    from assms path have "json_field rd ''processResults'' = None \<or>
           (\<exists>ps. json_field rd ''processResults'' = Some ps \<and>
              (\<forall>p \<in> set (json_items ps). \<forall>fl. json_field p ''flows'' = Some (JArr fl) \<longrightarrow>
                 (\<forall>f \<in> set fl. \<forall>sd. json_field f ''scenarioRunDetails'' \<noteq> Some (JArr sd))))"
      by auto
    then have "fst (run_data_body e run_id ts rd) = []" by (rule run_data_body_empty)
    with eq show ?thesis by simp
  qed
  then show ?thesis
    by (auto simp: extract_scenario_details_def now_local_def Let_def split: option.splits prod.splits)
qed

theorem malformed_report_yields_no_records_witness:
  "json_field malformed_report ''data'' = Some (JObj [(''status'', JStr ''ok'')]) \<and>
   json_field (JObj [(''status'', JStr ''ok'')]) ''processResults'' = None \<and>
   extract_scenario_details sample_env empty_world ''101'' (Some malformed_report) None
     = ([], empty_world\<lparr>ticks := 1\<rparr>)"
proof -
  have a: "json_field malformed_report ''data'' = Some (JObj [(''status'', JStr ''ok'')])"
    and b: "json_field (JObj [(''status'', JStr ''ok'')]) ''processResults'' = None"
    by (simp_all add: json_field_def malformed_report_def)
  from a b have "fst (extract_scenario_details sample_env empty_world ''101'' (Some malformed_report) None) = []"
    by (intro malformed_report_yields_no_records) simp
  moreover have "snd (extract_scenario_details sample_env empty_world ''101'' (Some malformed_report) None)
     = empty_world\<lparr>ticks := 1\<rparr>"
    by (simp add: extract_scenario_details_def malformed_report_def now_local_def empty_world_def
          split: prod.splits)
  ultimately show ?thesis using a b by (simp add: prod_eq_iff)
qed

subsection \<open>The status of a scenario\<close>

lemma take_is_take_append: "\<exists>k. take n a = take k (a @ b)"
proof (cases "n \<le> length a")
  case True
  then have "take n a = take n (a @ b)" by simp
  then show ?thesis ..
next
  case False
  then have "take n a = take (length a) (a @ b)" by simp
  then show ?thesis ..
qed

lemma append_take_is_take: "\<exists>k. a @ take m b = take k (a @ b)"
proof -
  have "a @ take m b = take (length a + m) (a @ b)" by simp
  then show ?thesis ..
qed

lemma run_loop_covers:
  fixes g :: "scenario \<Rightarrow> 'b"
  assumes "\<And>x. x \<in> set xs \<Longrightarrow>
             (\<exists>n. map g (fst (body x)) = take n (ex x)) \<and>
             (snd (body x) = None \<longrightarrow> map g (fst (body x)) = ex x) \<and>
             (good x \<longrightarrow> snd (body x) = None)"
  shows "(\<exists>n. map g (fst (run_loop body xs)) = take n (concat (map ex xs))) \<and>
         (snd (run_loop body xs) = None \<longrightarrow> map g (fst (run_loop body xs)) = concat (map ex xs)) \<and>
         ((\<forall>x \<in> set xs. good x) \<longrightarrow> snd (run_loop body xs) = None)"
  using assms
proof (induction xs)
  case Nil
  show ?case by simp
next
  case (Cons x xs)
  obtain rs err where bx: "body x = (rs, err)" by (cases "body x")
  obtain rs' err' where lp: "run_loop body xs = (rs', err')" by (cases "run_loop body xs")
  have px: "(\<exists>n. map g (fst (body x)) = take n (ex x)) \<and>
             (snd (body x) = None \<longrightarrow> map g (fst (body x)) = ex x) \<and>
             (good x \<longrightarrow> snd (body x) = None)"
    by (rule Cons.prems) simp
  from bx have fs: "fst (body x) = rs" "snd (body x) = err" by simp_all
  from px obtain n where n: "map g rs = take n (ex x)" unfolding fs by blast
  from px bx have full: "err = None \<longrightarrow> map g rs = ex x" and gd: "good x \<longrightarrow> err = None"
    by simp_all
  have ih: "(\<exists>n. map g (fst (run_loop body xs)) = take n (concat (map ex xs))) \<and>
         (snd (run_loop body xs) = None \<longrightarrow> map g (fst (run_loop body xs)) = concat (map ex xs)) \<and>
         ((\<forall>x \<in> set xs. good x) \<longrightarrow> snd (run_loop body xs) = None)"
    by (rule Cons.IH) (simp add: Cons.prems)
  from lp have fs': "fst (run_loop body xs) = rs'" "snd (run_loop body xs) = err'" by simp_all
  from ih obtain m where m: "map g rs' = take m (concat (map ex xs))" unfolding fs' by blast
  from ih lp have full': "err' = None \<longrightarrow> map g rs' = concat (map ex xs)"
    and gd': "(\<forall>x \<in> set xs. good x) \<longrightarrow> err' = None"
    by simp_all
  show ?case
  proof (cases err)
    case (Some x1)
    from n take_is_take_append [of n "ex x" "concat (map ex xs)"]
    have "\<exists>k. map g rs = take k (concat (map ex (x # xs)))"
      by simp
    with Some bx gd show ?thesis by simp
  next
    case None
    with full have f: "map g rs = ex x" by simp
    from f m append_take_is_take [of "ex x" m "concat (map ex xs)"]
    have "\<exists>k. map g (rs @ rs') = take k (concat (map ex (x # xs)))"
      by simp
    with None bx lp f full' gd' show ?thesis by simp
  qed
qed

lemma scenario_body_dict:
  "scenario_body e run_id ts pid pname fid fname (JObj kvs) = (rs, err) \<Longrightarrow>
     err = None \<and> map (\<lambda>r. (scenarioId r, rowRunStatus r)) rs =
       [(entry_id e (JObj kvs), entry_status (JObj kvs))]"
  by (auto simp: entry_id_def entry_status_def json_field_def dict_get_def Let_def)

lemma scenario_body_covers:
  "(\<exists>n. map (\<lambda>r. (scenarioId r, rowRunStatus r))
          (fst (scenario_body e run_id ts pid pname fid fname sc)) =
        take n [(entry_id e sc, entry_status sc)]) \<and>
   (snd (scenario_body e run_id ts pid pname fid fname sc) = None \<longrightarrow>
      map (\<lambda>r. (scenarioId r, rowRunStatus r))
        (fst (scenario_body e run_id ts pid pname fid fname sc)) =
      [(entry_id e sc, entry_status sc)]) \<and>
   (is_dict sc \<longrightarrow> snd (scenario_body e run_id ts pid pname fid fname sc) = None)"
proof (cases "is_dict sc")
  case True
  then obtain kvs where sc: "sc = JObj kvs" by (cases sc) auto
  obtain rs err where b: "scenario_body e run_id ts pid pname fid fname (JObj kvs) = (rs, err)"
    by (cases "scenario_body e run_id ts pid pname fid fname (JObj kvs)")
  from scenario_body_dict [OF b] have err: "err = None"
    and rs: "map (\<lambda>r. (scenarioId r, rowRunStatus r)) rs =
       [(entry_id e (JObj kvs), entry_status (JObj kvs))]" by blast+
  have "\<exists>n. map (\<lambda>r. (scenarioId r, rowRunStatus r)) rs =
        take n [(entry_id e (JObj kvs), entry_status (JObj kvs))]"
    unfolding rs by (rule exI [of _ 1]) simp
  with sc b err rs show ?thesis by simp
next
  case False
  then have b: "scenario_body e run_id ts pid pname fid fname sc = ([], Some AttributeError)"
    by (cases sc) simp_all
  have "\<exists>n. [] = take n [(entry_id e sc, entry_status sc)]"
    by (rule exI [of _ 0]) simp
  with b False show ?thesis by simp
qed

lemma flow_body_covers:
  "(\<exists>n. map (\<lambda>r. (scenarioId r, rowRunStatus r)) (fst (flow_body e run_id ts pid pname f)) =
        take n (map (\<lambda>sc. (entry_id e sc, entry_status sc)) (flow_entries f))) \<and>
   (snd (flow_body e run_id ts pid pname f) = None \<longrightarrow>
      map (\<lambda>r. (scenarioId r, rowRunStatus r)) (fst (flow_body e run_id ts pid pname f)) =
      map (\<lambda>sc. (entry_id e sc, entry_status sc)) (flow_entries f)) \<and>
   (is_dict f \<and> (\<forall>sc \<in> set (flow_entries f). is_dict sc) \<longrightarrow>
      snd (flow_body e run_id ts pid pname f) = None)"
proof (cases f)
  case (JObj kvs)
  show ?thesis
  proof (cases "\<exists>sds. map_of kvs ''scenarioRunDetails'' = Some (JArr sds)")
    case True
    then obtain sds where sds: "map_of kvs ''scenarioRunDetails'' = Some (JArr sds)" by blast
    let ?body = "scenario_body e run_id ts pid pname (dict_get kvs ''flowId'' (JStr []))
                   (dict_get kvs ''flowName'' (JStr []))"
    from sds JObj have fb: "flow_body e run_id ts pid pname f = run_loop ?body sds"
      by (simp add: Let_def)
    from sds JObj have fe: "flow_entries f = sds"
      by (simp add: flow_entries_def json_field_def)
    have "(\<exists>n. map (\<lambda>r. (scenarioId r, rowRunStatus r)) (fst (run_loop ?body sds)) =
             take n (concat (map (\<lambda>sc. [(entry_id e sc, entry_status sc)]) sds))) \<and>
          (snd (run_loop ?body sds) = None \<longrightarrow>
             map (\<lambda>r. (scenarioId r, rowRunStatus r)) (fst (run_loop ?body sds)) =
             concat (map (\<lambda>sc. [(entry_id e sc, entry_status sc)]) sds)) \<and>
          ((\<forall>sc \<in> set sds. is_dict sc) \<longrightarrow> snd (run_loop ?body sds) = None)"
      by (rule run_loop_covers) (rule scenario_body_covers)
    with fb fe JObj show ?thesis by simp
  next
    case False
    with JObj have fb: "flow_body e run_id ts pid pname f = ([], None)"
      by (auto simp: Let_def split: option.splits json.splits)
    from False JObj have fe: "flow_entries f = []"
      by (auto simp: flow_entries_def json_field_def split: option.splits json.splits)
    from fb fe show ?thesis by simp
  qed
qed (simp_all add: flow_entries_def json_field_def)

lemma process_body_covers:
  "(\<exists>n. map (\<lambda>r. (scenarioId r, rowRunStatus r)) (fst (process_body e run_id ts p)) =
        take n (concat (map (\<lambda>f. map (\<lambda>sc. (entry_id e sc, entry_status sc)) (flow_entries f))
                         (process_flows p)))) \<and>
   (snd (process_body e run_id ts p) = None \<longrightarrow>
      map (\<lambda>r. (scenarioId r, rowRunStatus r)) (fst (process_body e run_id ts p)) =
      concat (map (\<lambda>f. map (\<lambda>sc. (entry_id e sc, entry_status sc)) (flow_entries f))
                (process_flows p))) \<and>
   (is_dict p \<and> (\<forall>f \<in> set (process_flows p).
        is_dict f \<and> (\<forall>sc \<in> set (flow_entries f). is_dict sc)) \<longrightarrow>
      snd (process_body e run_id ts p) = None)"
proof (cases p)
  case (JObj kvs)
  show ?thesis
  proof (cases "\<exists>fls. map_of kvs ''flows'' = Some (JArr fls)")
    case True
    then obtain fls where fls: "map_of kvs ''flows'' = Some (JArr fls)" by blast
    let ?body = "flow_body e run_id ts (dict_get kvs ''processId'' (JStr []))
                   (dict_get kvs ''processName'' (JStr []))"
    from fls JObj have pb: "process_body e run_id ts p = run_loop ?body fls"
      by (simp add: Let_def)
    from fls JObj have pf: "process_flows p = fls"
      by (simp add: process_flows_def json_field_def)
    have "(\<exists>n. map (\<lambda>r. (scenarioId r, rowRunStatus r)) (fst (run_loop ?body fls)) =
             take n (concat (map (\<lambda>f. map (\<lambda>sc. (entry_id e sc, entry_status sc))
                                        (flow_entries f)) fls))) \<and>
          (snd (run_loop ?body fls) = None \<longrightarrow>
             map (\<lambda>r. (scenarioId r, rowRunStatus r)) (fst (run_loop ?body fls)) =
             concat (map (\<lambda>f. map (\<lambda>sc. (entry_id e sc, entry_status sc)) (flow_entries f)) fls)) \<and>
          ((\<forall>f \<in> set fls. is_dict f \<and> (\<forall>sc \<in> set (flow_entries f). is_dict sc)) \<longrightarrow>
             snd (run_loop ?body fls) = None)"
      by (rule run_loop_covers) (rule flow_body_covers)
    with pb pf JObj show ?thesis by simp
  next
    case False
    with JObj have pb: "process_body e run_id ts p = ([], None)"
      by (auto simp: Let_def split: option.splits json.splits)
    from False JObj have pf: "process_flows p = []"
      by (auto simp: process_flows_def json_field_def split: option.splits json.splits)
    from pb pf show ?thesis by simp
  qed
qed (simp_all add: process_flows_def json_field_def)

lemma run_data_body_covers:
  "(\<exists>n. map (\<lambda>r. (scenarioId r, rowRunStatus r)) (fst (run_data_body e run_id ts rd)) =
        take n (concat (map (\<lambda>p. concat (map (\<lambda>f. map (\<lambda>sc. (entry_id e sc, entry_status sc))
                                                     (flow_entries f)) (process_flows p)))
                  (case json_field rd ''processResults'' of None \<Rightarrow> []
                   | Some ps \<Rightarrow> json_items ps)))) \<and>
   ((\<forall>p \<in> set (case json_field rd ''processResults'' of None \<Rightarrow> [] | Some ps \<Rightarrow> json_items ps).
        is_dict p \<and> (\<forall>f \<in> set (process_flows p).
           is_dict f \<and> (\<forall>sc \<in> set (flow_entries f). is_dict sc))) \<longrightarrow>
      map (\<lambda>r. (scenarioId r, rowRunStatus r)) (fst (run_data_body e run_id ts rd)) =
      concat (map (\<lambda>p. concat (map (\<lambda>f. map (\<lambda>sc. (entry_id e sc, entry_status sc))
                                           (flow_entries f)) (process_flows p)))
                (case json_field rd ''processResults'' of None \<Rightarrow> []
                 | Some ps \<Rightarrow> json_items ps)))"
proof (cases rd)
  case (JObj kvs)
  show ?thesis
  proof (cases "map_of kvs ''processResults''")
    case None
    then have "''processResults'' \<notin> set (map fst kvs)" by (simp add: map_of_None_keys)
    with JObj None show ?thesis
      by (simp add: run_data_body_def json_field_def)
  next
    case (Some ps)
    note key = map_of_Some_key [OF Some]
    show ?thesis
    proof (cases "py_iter ps")
      case (Inl x)
      with JObj Some key show ?thesis
        by (simp add: run_data_body_def json_field_def dict_get_def json_items_def)
    next
      case (Inr processes)
      with JObj Some key have rb: "run_data_body e run_id ts rd =
          run_loop (process_body e run_id ts) processes"
        by (simp add: run_data_body_def dict_get_def)
      from JObj Some Inr have ps: "(case json_field rd ''processResults'' of None \<Rightarrow> []
                 | Some ps \<Rightarrow> json_items ps) = processes"
        by (simp add: json_field_def json_items_def)
      let ?X = "map (\<lambda>r. (scenarioId r, rowRunStatus r))
                 (fst (run_loop (process_body e run_id ts) processes))"
      let ?E = "concat (map (\<lambda>p. concat (map (\<lambda>f. map (\<lambda>sc. (entry_id e sc, entry_status sc))
                                                     (flow_entries f)) (process_flows p)))
                  processes)"
      let ?G = "\<forall>p \<in> set processes. is_dict p \<and> (\<forall>f \<in> set (process_flows p).
                is_dict f \<and> (\<forall>sc \<in> set (flow_entries f). is_dict sc))"
      have cov: "(\<exists>n. ?X = take n ?E) \<and>
          (snd (run_loop (process_body e run_id ts) processes) = None \<longrightarrow> ?X = ?E) \<and>
          (?G \<longrightarrow> snd (run_loop (process_body e run_id ts) processes) = None)"
        by (rule run_loop_covers) (rule process_body_covers)
      from cov have A: "\<exists>n. ?X = take n ?E" by (rule conjunct1)
      have D: "?G \<longrightarrow> ?X = ?E"
      proof
        assume g: ?G
        from cov have "?G \<longrightarrow> snd (run_loop (process_body e run_id ts) processes) = None"
          by (rule conjunct2 [OF conjunct2])
        with g have n: "snd (run_loop (process_body e run_id ts) processes) = None" by (rule rev_mp)
        from cov have "snd (run_loop (process_body e run_id ts) processes) = None \<longrightarrow> ?X = ?E"
          by (rule conjunct1 [OF conjunct2])
        with n show "?X = ?E" by (rule rev_mp)
      qed
      from A D show ?thesis unfolding rb ps by (rule conjI)
    qed
  qed
qed (simp_all add: run_data_body_def json_field_def)

lemma traverse_report_no_run_entry:
  assumes "run_entry run_id report = None"
  shows "fst (traverse_report e run_id ts report) = []"
proof (cases report)
  case (JObj kvs)
  show ?thesis
  proof (cases "map_of kvs ''data''")
    case None
    with JObj show ?thesis by (simp add: traverse_report_def map_of_None_keys)
  next
    case (Some data)
    note d = Some map_of_Some_key [OF Some]
    show ?thesis
    proof (cases data)
      case dobj: (JObj dkvs)
      show ?thesis
      proof (cases "map_of dkvs ''processResults''")
        case None
        with JObj d dobj show ?thesis
          by (simp add: traverse_report_def map_of_None_keys dict_get_def)
      next
        case (Some pr)
        note p = Some map_of_Some_key [OF Some]
        show ?thesis
        proof (cases pr)
          case probj: (JObj pkvs)
          with assms JObj d dobj p have "map_of pkvs run_id = None"
            by (simp add: run_entry_def json_field_def)
          with JObj d dobj p probj show ?thesis
            by (simp add: traverse_report_def map_of_None_keys dict_get_def)
        qed (use JObj d dobj p in \<open>simp_all add: traverse_report_def dict_get_def split: bool.splits\<close>)
      qed
    qed (use JObj d in \<open>simp_all add: traverse_report_def dict_get_def\<close>)
  qed
qed (simp_all add: traverse_report_def)

lemma traverse_report_run_entry:
  assumes "run_entry run_id report = Some rd"
  shows "traverse_report e run_id ts report = run_data_body e run_id ts rd"
proof -
  from assms obtain kvs data where r: "report = JObj kvs" and d: "map_of kvs ''data'' = Some data"
    by (cases report) (auto simp: run_entry_def json_field_def split: option.splits)
  from assms r d obtain dkvs pr where dd: "data = JObj dkvs"
    and p: "map_of dkvs ''processResults'' = Some pr"
    by (cases data) (auto simp: run_entry_def json_field_def split: option.splits)
  from assms r d dd p obtain pkvs where pp: "pr = JObj pkvs" and e: "map_of pkvs run_id = Some rd"
    by (cases pr) (auto simp: run_entry_def json_field_def split: option.splits)
  from r d dd p pp e map_of_Some_key [OF d] map_of_Some_key [OF p] map_of_Some_key [OF e]
  show ?thesis by (simp add: traverse_report_def dict_get_def)
qed

lemma falsy_no_run_entry: "\<not> truthy report \<Longrightarrow> run_entry run_id report = None"
  by (cases report) (auto simp: run_entry_def json_field_def)

lemma expected_of_entries:
  "map (\<lambda>sc. (entry_id e sc, entry_status sc)) (scenario_entries run_id report) =
   concat (map (\<lambda>p. concat (map (\<lambda>f. map (\<lambda>sc. (entry_id e sc, entry_status sc))
                                       (flow_entries f)) (process_flows p)))
             (report_processes run_id report))"
  by (simp add: scenario_entries_def map_concat comp_def)

lemma traverse_report_covers:
  "(\<exists>n. map (\<lambda>r. (scenarioId r, rowRunStatus r)) (fst (traverse_report e run_id ts report)) =
        take n (map (\<lambda>sc. (entry_id e sc, entry_status sc)) (scenario_entries run_id report))) \<and>
   ((\<forall>p \<in> set (report_processes run_id report). is_dict p \<and>
        (\<forall>f \<in> set (process_flows p). is_dict f \<and> (\<forall>sc \<in> set (flow_entries f). is_dict sc))) \<longrightarrow>
      map (\<lambda>r. (scenarioId r, rowRunStatus r)) (fst (traverse_report e run_id ts report)) =
      map (\<lambda>sc. (entry_id e sc, entry_status sc)) (scenario_entries run_id report))"
proof (cases "run_entry run_id report")
  case None
  then have "report_processes run_id report = []" by (simp add: report_processes_def)
  with traverse_report_no_run_entry [OF None, of e ts] show ?thesis
    by (simp add: scenario_entries_def)
next
  case (Some rd)
  then have rp: "report_processes run_id report =
      (case json_field rd ''processResults'' of None \<Rightarrow> [] | Some ps \<Rightarrow> json_items ps)"
    by (simp add: report_processes_def)
  show ?thesis
    unfolding expected_of_entries traverse_report_run_entry [OF Some] rp
    by (rule run_data_body_covers)
qed

lemma extract_fst:
  "fst (extract_scenario_details e w run_id (Some report) created_timestamp) =
     (if truthy report
      then fst (traverse_report e run_id
                  (case created_timestamp of None \<Rightarrow> TsIso (local_clock e (ticks w))
                   | Some v \<Rightarrow> TsJson v) report)
      else [])"
  by (simp add: extract_scenario_details_def now_local_def Let_def split: option.splits)

text \<open>
  Claim C5. The records that \<open>extract_scenario_details\<close> returns are, in order, the records
  of the scenario entries of the report: the list of the pairs of \<open>scenarioId\<close> and status of
  the records is an initial part of the list of these pairs for the scenario entries (the
  traversal stops at the first value that is not a dict where a dict is expected), and it
  is the whole list when the processes, flows and scenario entries of the report are dicts.
  The status of an entry is computed from the first row of its \<open>rowRunStatus\<close> alone,
  whatever the other rows: \<open>Passed\<close> when its value is truthy, \<open>Failed\<close> otherwise;
  \<open>{"0": true}\<close> gives \<open>Passed\<close>, \<open>{"0": false}\<close> gives \<open>Failed\<close>, and an empty or absent
  \<open>rowRunStatus\<close> gives a record with the empty status, without an exception.
\<close>

theorem status_from_first_row:
  "(\<exists>n. map (\<lambda>r. (scenarioId r, rowRunStatus r))
           (fst (extract_scenario_details e w run_id (Some report) created_timestamp)) =
        take n (map (\<lambda>sc. (entry_id e sc, entry_status sc)) (scenario_entries run_id report))) \<and>
   ((\<forall>p \<in> set (report_processes run_id report). is_dict p \<and>
        (\<forall>f \<in> set (process_flows p). is_dict f \<and> (\<forall>sc \<in> set (flow_entries f). is_dict sc))) \<longrightarrow>
      map (\<lambda>r. (scenarioId r, rowRunStatus r))
        (fst (extract_scenario_details e w run_id (Some report) created_timestamp)) =
      map (\<lambda>sc. (entry_id e sc, entry_status sc)) (scenario_entries run_id report)) \<and>
   (\<forall>first_row v rest.
      json_field entry ''rowRunStatus'' = Some (JObj ((first_row, v) # rest)) \<longrightarrow>
      entry_status entry = (if truthy v then ''Passed'' else ''Failed'')) \<and>
   (json_field entry ''rowRunStatus'' = Some (JObj [(''0'', JBool True)]) \<longrightarrow>
      entry_status entry = ''Passed'') \<and>
   (json_field entry ''rowRunStatus'' = Some (JObj [(''0'', JBool False)]) \<longrightarrow>
      entry_status entry = ''Failed'') \<and>
   (json_field entry ''rowRunStatus'' = Some (JObj []) \<or>
    json_field entry ''rowRunStatus'' = None \<longrightarrow> entry_status entry = [])"
proof -
  have st: "(\<forall>first_row v rest.
      json_field entry ''rowRunStatus'' = Some (JObj ((first_row, v) # rest)) \<longrightarrow>
      entry_status entry = (if truthy v then ''Passed'' else ''Failed'')) \<and>
   (json_field entry ''rowRunStatus'' = Some (JObj [(''0'', JBool True)]) \<longrightarrow>
      entry_status entry = ''Passed'') \<and>
   (json_field entry ''rowRunStatus'' = Some (JObj [(''0'', JBool False)]) \<longrightarrow>
      entry_status entry = ''Failed'') \<and>
   (json_field entry ''rowRunStatus'' = Some (JObj []) \<or>
    json_field entry ''rowRunStatus'' = None \<longrightarrow> entry_status entry = [])"
    by (auto simp: entry_status_def status_value_of_def dict_get_def)
  show ?thesis
  proof (cases "truthy report")
    case True
    then have f: "fst (extract_scenario_details e w run_id (Some report) created_timestamp) =
       fst (traverse_report e run_id
                  (case created_timestamp of None \<Rightarrow> TsIso (local_clock e (ticks w))
                   | Some v \<Rightarrow> TsJson v) report)"
      by (simp add: extract_fst)
    from traverse_report_covers [of e run_id _ report] st show ?thesis
      unfolding f by (intro conjI) blast+
  next
    case False
    then have f: "fst (extract_scenario_details e w run_id (Some report) created_timestamp) = []"
      by (simp add: extract_fst)
    from falsy_no_run_entry [OF False] have "scenario_entries run_id report = []"
      by (simp add: scenario_entries_def report_processes_def)
    with f st show ?thesis by simp
  qed
qed

lemma sample_extract:
  "extract_scenario_details sample_env empty_world ''101'' (Some sample_report)
      (Some (JStr ''2025-04-14T09:00:00'')) =
   ([\<lparr>runId = ''101'', scenarioId = ''s1'', scenarioName = JStr ''Login'', flowId = ''f1'',
       flowName = JStr ''Auth'', processId = ''p1'', processName = JStr ''Onboarding'',
       createdTimestamp = TsJson (JStr ''2025-04-14T09:00:00''), rowRunStatus = ''Passed''\<rparr>,
     \<lparr>runId = ''101'', scenarioId = ''s2'', scenarioName = JStr ''Logout'', flowId = ''f1'',
       flowName = JStr ''Auth'', processId = ''p1'', processName = JStr ''Onboarding'',
       createdTimestamp = TsJson (JStr ''2025-04-14T09:00:00''), rowRunStatus = ''Failed''\<rparr>,
     \<lparr>runId = ''101'', scenarioId = ''s3'', scenarioName = JStr ''Reset'', flowId = ''f1'',
       flowName = JStr ''Auth'', processId = ''p1'', processName = JStr ''Onboarding'',
       createdTimestamp = TsJson (JStr ''2025-04-14T09:00:00''), rowRunStatus = []\<rparr>],
    empty_world)"
  by (simp add: extract_scenario_details_def traverse_report_def run_data_body_def
        sample_report_def sample_flow_def sample_scenarios_def sample_scenario_items_def
        dict_get_def status_value_of_def Let_def)

lemma sample_entries:
  "scenario_entries ''101'' sample_report = sample_scenarios"
  "report_processes ''101'' sample_report =
     [JObj [(''processId'', JStr ''p1''), (''processName'', JStr ''Onboarding''),
            (''flows'', JArr [JObj sample_flow])]]"
  by (simp_all add: scenario_entries_def report_processes_def run_entry_def json_field_def
        json_items_def process_flows_def flow_entries_def sample_report_def sample_flow_def)

theorem status_from_first_row_witness:
  "map (\<lambda>sc. (entry_id sample_env sc, entry_status sc)) (scenario_entries ''101'' sample_report)
     = [(''s1'', ''Passed''), (''s2'', ''Failed''), (''s3'', [])] \<and>
   map (\<lambda>r. (scenarioId r, rowRunStatus r))
     (fst (extract_scenario_details sample_env empty_world ''101'' (Some sample_report)
             (Some (JStr ''2025-04-14T09:00:00''))))
     = [(''s1'', ''Passed''), (''s2'', ''Failed''), (''s3'', [])]"
proof -
  have wf: "\<forall>p \<in> set (report_processes ''101'' sample_report). is_dict p \<and>
        (\<forall>f \<in> set (process_flows p). is_dict f \<and> (\<forall>sc \<in> set (flow_entries f). is_dict sc))"
    by (simp add: sample_entries process_flows_def flow_entries_def json_field_def
          sample_flow_def sample_scenarios_def)
  have ex: "map (\<lambda>sc. (entry_id sample_env sc, entry_status sc))
               (scenario_entries ''101'' sample_report)
     = [(''s1'', ''Passed''), (''s2'', ''Failed''), (''s3'', [])]"
    by (simp add: sample_entries sample_scenarios_def sample_scenario_items_def entry_id_def
          entry_status_def json_field_def status_value_of_def dict_get_def)
  from status_from_first_row [of sample_env empty_world "''101''" sample_report
      "Some (JStr ''2025-04-14T09:00:00'')"] wf
  have "map (\<lambda>r. (scenarioId r, rowRunStatus r))
     (fst (extract_scenario_details sample_env empty_world ''101'' (Some sample_report)
             (Some (JStr ''2025-04-14T09:00:00'')))) =
     map (\<lambda>sc. (entry_id sample_env sc, entry_status sc)) (scenario_entries ''101'' sample_report)"
    by blast
  with ex show ?thesis by simp
qed

subsection \<open>The staleness gate\<close>










end
